theory Spec2Isabelle
  imports Main "HOL-Library.Word"
begin

section \<open>Buffers, errors and \<open>struct\<close> formats\<close>

text \<open>
  The module \<open>qtm/packet.py\<close> decodes one QTM real-time data packet from a byte buffer.
  A buffer is a list of bytes and an offset is a Python integer. Every exception the module
  can raise is a value of \<open>error\<close>: \<open>struct.error\<close> (a short read, or a format string
  with a negative repeat count), \<open>ValueError\<close> (a tag that is no member of the enumeration)
  and \<open>AttributeError\<close> (reading the \<open>format\<close> attribute of a class that has none yet).
\<close>

type_synonym byte = "8 word"
type_synonym buffer = "byte list"

datatype error = StructError | ValueError nat | AttributeError

text \<open>
  \<open>Struct.unpack_from(data, offset)\<close> for a format of \<open>sz\<close> bytes. A negative offset
  counts from the end of the buffer. The result is the slice of \<open>sz\<close> bytes the fields
  are read from.
\<close>

definition unpack_from :: "nat \<Rightarrow> buffer \<Rightarrow> int \<Rightarrow> error + byte list" where
  "unpack_from sz buf offset =
     (if offset < 0 then
        (if offset + int sz > 0 then Inl StructError
         else if offset + int (length buf) < 0 then Inl StructError
         else Inr (take sz (drop (nat (offset + int (length buf))) buf)))
      else if int (length buf) - offset < int sz then Inl StructError
      else Inr (take sz (drop (nat offset) buf)))"

text \<open>
  Little-endian fields. \<open>I\<close> is an unsigned 32-bit integer; \<open>i\<close>, \<open>h\<close> and \<open>q\<close> are
  two's complement integers of 4, 2 and 8 bytes; \<open>c\<close> is a \<open>bytes\<close> object of length 1.
  A float \<open>f\<close> is kept as its 32-bit pattern: no claim depends on the numeric value.
\<close>

type_synonym float32 = "32 word"

fun le_uint :: "byte list \<Rightarrow> nat" where
  "le_uint [] = 0"
| "le_uint (b # bs) = unat b + 256 * le_uint bs"

definition le_sint :: "byte list \<Rightarrow> int" where
  "le_sint bs =
     (let u = int (le_uint bs); m = 2 ^ (8 * length bs)
      in if m \<le> 2 * u then u - m else u)"

definition le_float :: "byte list \<Rightarrow> float32" where
  "le_float bs = word_of_nat (le_uint bs)"

definition field :: "nat \<Rightarrow> nat \<Rightarrow> byte list \<Rightarrow> byte list" where
  "field off w bs = take w (drop off bs)"

fun le_floats :: "nat \<Rightarrow> byte list \<Rightarrow> float32 list" where
  "le_floats 0 bs = []"
| "le_floats (Suc n) bs = le_float (take 4 bs) # le_floats n (drop 4 bs)"

text \<open>
  A namedtuple class with its \<open>format\<close> attribute: the size of the format and the
  constructor \<open>_make\<close> applied to the unpacked fields.
\<close>

record 'a component_type =
  format_size :: nat
  mk :: "byte list \<Rightarrow> 'a"

text \<open>\<open>QRTPacket._get_exact\<close> and \<open>QRTPacket._get_tuple\<close>.\<close>

definition get_exact :: "'a component_type \<Rightarrow> buffer \<Rightarrow> int \<Rightarrow> error + (int \<times> 'a)" where
  "get_exact component_type buf position =
     (case unpack_from (format_size component_type) buf position of
        Inl e \<Rightarrow> Inl e
      | Inr raw \<Rightarrow> Inr (position + int (format_size component_type), mk component_type raw))"

text \<open>
  \<open>_get_tuple\<close> differs from \<open>_get_exact\<close> only in passing the whole unpacked tuple as
  the single field of the record, which the \<open>mk\<close> of such a class does.
\<close>

definition get_tuple :: "'a component_type \<Rightarrow> buffer \<Rightarrow> int \<Rightarrow> error + (int \<times> 'a)" where
  "get_tuple component_type buf position =
     (case unpack_from (format_size component_type) buf position of
        Inl e \<Rightarrow> Inl e
      | Inr raw \<Rightarrow> Inr (position + int (format_size component_type), mk component_type raw))"

text \<open>
  \<open>for i in range(n): body\<close> over a loop state; \<open>range\<close> of a negative count is empty,
  so the count is given as \<open>nat n\<close>. The first argument is the current value of \<open>i\<close>.
\<close>

fun for_range :: "nat \<Rightarrow> nat \<Rightarrow> (nat \<Rightarrow> 's \<Rightarrow> error + 's) \<Rightarrow> 's \<Rightarrow> error + 's" where
  "for_range i 0 body s = Inr s"
| "for_range i (Suc n) body s =
     (case body i s of Inl e \<Rightarrow> Inl e | Inr s' \<Rightarrow> for_range (Suc i) n body s')"

section \<open>Packet header and component directory\<close>

datatype QRTComponentType =
    Component3d | Component3dNoLabels | ComponentAnalog | ComponentForce
  | Component6d | Component6dEuler | Component2d | Component2dLin
  | Component3dRes | Component3dNoLabelsRes | Component6dRes | Component6dEulerRes
  | ComponentAnalogSingle | ComponentImage | ComponentForceSingle
  | ComponentGazeVector | ComponentTimecode | ComponentSkeleton

text \<open>\<open>QRTComponentType(c_type)\<close>: the member with that value, \<open>ValueError\<close> otherwise.\<close>

definition QRTComponentType_of :: "nat \<Rightarrow> error + QRTComponentType" where
  "QRTComponentType_of c_type =
     (if c_type = 1 then Inr Component3d
      else if c_type = 2 then Inr Component3dNoLabels
      else if c_type = 3 then Inr ComponentAnalog
      else if c_type = 4 then Inr ComponentForce
      else if c_type = 5 then Inr Component6d
      else if c_type = 6 then Inr Component6dEuler
      else if c_type = 7 then Inr Component2d
      else if c_type = 8 then Inr Component2dLin
      else if c_type = 9 then Inr Component3dRes
      else if c_type = 10 then Inr Component3dNoLabelsRes
      else if c_type = 11 then Inr Component6dRes
      else if c_type = 12 then Inr Component6dEulerRes
      else if c_type = 13 then Inr ComponentAnalogSingle
      else if c_type = 14 then Inr ComponentImage
      else if c_type = 15 then Inr ComponentForceSingle
      else if c_type = 16 then Inr ComponentGazeVector
      else if c_type = 17 then Inr ComponentTimecode
      else if c_type = 18 then Inr ComponentSkeleton
      else Inl (ValueError c_type))"

text \<open>\<open>RTDataQRTPacket = Struct("<qII")\<close> and \<open>RTComponentData = Struct("<II")\<close>.\<close>

definition RTDataQRTPacket :: "(int \<times> nat \<times> nat) component_type" where
  "RTDataQRTPacket =
     \<lparr>format_size = 16,
      mk = (\<lambda>bs. (le_sint (field 0 8 bs), le_uint (field 8 4 bs), le_uint (field 12 4 bs)))\<rparr>"

definition RTComponentData :: "(nat \<times> nat) component_type" where
  "RTComponentData =
     \<lparr>format_size = 8, mk = (\<lambda>bs. (le_uint (field 0 4 bs), le_uint (field 4 4 bs)))\<rparr>"

record QRTPacket =
  data :: buffer
  timestamp :: int
  framenumber :: nat
  components :: "QRTComponentType \<rightharpoonup> int"

text \<open>
  The body of the loop of \<open>QRTPacket.__init__\<close>; the loop state is the pair of
  \<open>position\<close> and \<open>self.components\<close>.
\<close>

definition init_body ::
  "buffer \<Rightarrow> nat \<Rightarrow> int \<times> (QRTComponentType \<rightharpoonup> int) \<Rightarrow> error + (int \<times> (QRTComponentType \<rightharpoonup> int))"
where
  "init_body buf i s =
     (case s of (position, comps) \<Rightarrow>
        (case get_exact RTComponentData buf position of
           Inl e \<Rightarrow> Inl e
         | Inr (_, (c_size, c_type)) \<Rightarrow>
             (case QRTComponentType_of c_type of
                Inl e \<Rightarrow> Inl e
              | Inr kind \<Rightarrow> Inr (position + int c_size, comps(kind \<mapsto> position + 8)))))"

definition QRTPacket_init :: "buffer \<Rightarrow> error + QRTPacket" where
  "QRTPacket_init buf =
     (case get_exact RTDataQRTPacket buf 0 of
        Inl e \<Rightarrow> Inl e
      | Inr (_, (ts, fn, component_count)) \<Rightarrow>
          (case for_range 0 component_count (init_body buf) (16, Map.empty) of
             Inl e \<Rightarrow> Inl e
           | Inr (position, comps) \<Rightarrow>
               Inr \<lparr>data = buf, timestamp = ts, framenumber = fn, components = comps\<rparr>))"


subsection \<open>The directory as the specification describes it\<close>

text \<open>
  The specification's directory walk: starting at offset 16, each of the \<open>n\<close> entries is an
  8-byte pair \<open>(size, type_tag)\<close> at the cursor, and the cursor then advances by \<open>size\<close>.
  \<open>spec_entries\<close> lists the entries as \<open>(entry_offset, size, type_tag)\<close>, up to the first
  one that cannot be read. \<open>spec_directory\<close> maps a kind to \<open>entry_offset + 8\<close> of the last
  entry carrying its tag.
\<close>

fun spec_entries :: "buffer \<Rightarrow> nat \<Rightarrow> int \<Rightarrow> (int \<times> nat \<times> nat) list" where
  "spec_entries buf 0 cursor = []"
| "spec_entries buf (Suc n) cursor =
     (case unpack_from 8 buf cursor of
        Inl e \<Rightarrow> []
      | Inr bs \<Rightarrow>
          (cursor, le_uint (take 4 bs), le_uint (take 4 (drop 4 bs)))
            # spec_entries buf n (cursor + int (le_uint (take 4 bs))))"

definition has_kind :: "QRTComponentType \<Rightarrow> int \<times> nat \<times> nat \<Rightarrow> bool" where
  "has_kind k entry = (QRTComponentType_of (snd (snd entry)) = Inr k)"

definition spec_directory :: "(int \<times> nat \<times> nat) list \<Rightarrow> QRTComponentType \<rightharpoonup> int" where
  "spec_directory es k =
     (case filter (has_kind k) es of [] \<Rightarrow> None | e # es' \<Rightarrow> Some (fst (last (e # es')) + 8))"

text \<open>
  The cursor positions at which the scan reads an entry: it stops after an entry that cannot
  be read or whose tag is unknown.
\<close>

fun scan_positions :: "buffer \<Rightarrow> nat \<Rightarrow> int \<Rightarrow> int list" where
  "scan_positions buf 0 cursor = []"
| "scan_positions buf (Suc n) cursor =
     cursor #
       (case get_exact RTComponentData buf cursor of
          Inl e \<Rightarrow> []
        | Inr (_, (c_size, c_type)) \<Rightarrow>
            (case QRTComponentType_of c_type of
               Inl e \<Rightarrow> []
             | Inr kind \<Rightarrow> scan_positions buf n (cursor + int c_size)))"


definition spec_component_count :: "buffer \<Rightarrow> nat" where
  "spec_component_count buf = le_uint (take 4 (drop 12 buf))"

text \<open>The directory \<open>es\<close> laid over an earlier directory: later entries overwrite.\<close>

definition dir_over ::
  "(QRTComponentType \<rightharpoonup> int) \<Rightarrow> (int \<times> nat \<times> nat) list \<Rightarrow> QRTComponentType \<rightharpoonup> int" where
  "dir_over comps es k = (case spec_directory es k of None \<Rightarrow> comps k | Some v \<Rightarrow> Some v)"

text \<open>Example buffers: a header announcing two entries of kind 1 (3D) of size 8 each, and a
  header announcing one entry of kind 1 whose size field is 1000.\<close>

definition dup_packet :: buffer where
  "dup_packet = [0,0,0,0,0,0,0,0, 0,0,0,0, 2,0,0,0, 8,0,0,0, 1,0,0,0, 8,0,0,0, 1,0,0,0]"

definition overlong_packet :: buffer where
  "overlong_packet = [0,0,0,0,0,0,0,0, 0,0,0,0, 1,0,0,0, 232,3,0,0, 1,0,0,0]"

definition short_packet :: buffer where
  "short_packet = [0,0,0,0,0,0,0,0, 0,0,0,0, 2,0,0,0, 8,0,0,0, 1,0,0,0, 8,0,0,0, 1,0,0]"

section \<open>Component records\<close>

text \<open>
  One record per namedtuple of the module and, under the same name, the class with its
  \<open>format\<close>. Names of fields that occur in several namedtuples carry a prefix.
\<close>

record RT2DComponent =
  camera_count :: nat
  c2d_drop_rate :: int
  c2d_out_of_sync_rate :: int

definition RT2DComponent :: "RT2DComponent component_type" where
  "RT2DComponent =
     \<lparr>format_size = 8,
      mk = (\<lambda>bs. \<lparr>camera_count = le_uint (field 0 4 bs), c2d_drop_rate = le_sint (field 4 2 bs),
                  c2d_out_of_sync_rate = le_sint (field 6 2 bs)\<rparr>)\<rparr>"

record RT2DCamera =
  marker_count :: int
  status_flag :: "byte list"

definition RT2DCamera :: "RT2DCamera component_type" where
  "RT2DCamera =
     \<lparr>format_size = 5,
      mk = (\<lambda>bs. \<lparr>marker_count = le_sint (field 0 4 bs), status_flag = field 4 1 bs\<rparr>)\<rparr>"

record RT2DMarker =
  m2d_x :: int
  m2d_y :: int
  m2d_d_x :: int
  m2d_d_y :: int

definition RT2DMarker :: "RT2DMarker component_type" where
  "RT2DMarker =
     \<lparr>format_size = 12,
      mk = (\<lambda>bs. \<lparr>m2d_x = le_sint (field 0 4 bs), m2d_y = le_sint (field 4 4 bs),
                  m2d_d_x = le_sint (field 8 2 bs), m2d_d_y = le_sint (field 10 2 bs)\<rparr>)\<rparr>"

record RT3DComponent =
  c3d_marker_count :: nat
  c3d_drop_rate :: int
  c3d_out_of_sync_rate :: int

definition RT3DComponent :: "RT3DComponent component_type" where
  "RT3DComponent =
     \<lparr>format_size = 8,
      mk = (\<lambda>bs. \<lparr>c3d_marker_count = le_uint (field 0 4 bs), c3d_drop_rate = le_sint (field 4 2 bs),
                  c3d_out_of_sync_rate = le_sint (field 6 2 bs)\<rparr>)\<rparr>"

record RT3DMarkerPosition =
  p3_x :: float32
  p3_y :: float32
  p3_z :: float32

definition RT3DMarkerPosition :: "RT3DMarkerPosition component_type" where
  "RT3DMarkerPosition =
     \<lparr>format_size = 12,
      mk = (\<lambda>bs. \<lparr>p3_x = le_float (field 0 4 bs), p3_y = le_float (field 4 4 bs),
                  p3_z = le_float (field 8 4 bs)\<rparr>)\<rparr>"

record RT3DMarkerPositionResidual =
  pr_x :: float32
  pr_y :: float32
  pr_z :: float32
  pr_residual :: float32

definition RT3DMarkerPositionResidual :: "RT3DMarkerPositionResidual component_type" where
  "RT3DMarkerPositionResidual =
     \<lparr>format_size = 16,
      mk = (\<lambda>bs. \<lparr>pr_x = le_float (field 0 4 bs), pr_y = le_float (field 4 4 bs),
                  pr_z = le_float (field 8 4 bs), pr_residual = le_float (field 12 4 bs)\<rparr>)\<rparr>"

record RT3DMarkerPositionNoLabel =
  pn_x :: float32
  pn_y :: float32
  pn_z :: float32
  pn_id :: int

definition RT3DMarkerPositionNoLabel :: "RT3DMarkerPositionNoLabel component_type" where
  "RT3DMarkerPositionNoLabel =
     \<lparr>format_size = 16,
      mk = (\<lambda>bs. \<lparr>pn_x = le_float (field 0 4 bs), pn_y = le_float (field 4 4 bs),
                  pn_z = le_float (field 8 4 bs), pn_id = le_sint (field 12 4 bs)\<rparr>)\<rparr>"

record RT3DMarkerPositionNoLabelResidual =
  pnr_x :: float32
  pnr_y :: float32
  pnr_z :: float32
  pnr_id :: int
  pnr_residual :: float32

definition RT3DMarkerPositionNoLabelResidual ::
  "RT3DMarkerPositionNoLabelResidual component_type" where
  "RT3DMarkerPositionNoLabelResidual =
     \<lparr>format_size = 20,
      mk = (\<lambda>bs. \<lparr>pnr_x = le_float (field 0 4 bs), pnr_y = le_float (field 4 4 bs),
                  pnr_z = le_float (field 8 4 bs), pnr_id = le_sint (field 12 4 bs),
                  pnr_residual = le_float (field 16 4 bs)\<rparr>)\<rparr>"

record RT6DComponent =
  body_count :: int
  c6d_drop_rate :: int
  c6d_out_of_sync_rate :: int

definition RT6DComponent :: "RT6DComponent component_type" where
  "RT6DComponent =
     \<lparr>format_size = 8,
      mk = (\<lambda>bs. \<lparr>body_count = le_sint (field 0 4 bs), c6d_drop_rate = le_sint (field 4 2 bs),
                  c6d_out_of_sync_rate = le_sint (field 6 2 bs)\<rparr>)\<rparr>"

record RT6DBodyPosition =
  b6_x :: float32
  b6_y :: float32
  b6_z :: float32

definition RT6DBodyPosition :: "RT6DBodyPosition component_type" where
  "RT6DBodyPosition =
     \<lparr>format_size = 12,
      mk = (\<lambda>bs. \<lparr>b6_x = le_float (field 0 4 bs), b6_y = le_float (field 4 4 bs),
                  b6_z = le_float (field 8 4 bs)\<rparr>)\<rparr>"

record RT6DBodyRotation =
  matrix :: "float32 list"

definition RT6DBodyRotation :: "RT6DBodyRotation component_type" where
  "RT6DBodyRotation = \<lparr>format_size = 36, mk = (\<lambda>bs. \<lparr>matrix = le_floats 9 bs\<rparr>)\<rparr>"

record RT6DBodyResidual =
  b6_residual :: float32

definition RT6DBodyResidual :: "RT6DBodyResidual component_type" where
  "RT6DBodyResidual = \<lparr>format_size = 4, mk = (\<lambda>bs. \<lparr>b6_residual = le_float (field 0 4 bs)\<rparr>)\<rparr>"

record RT6DBodyEuler =
  a1 :: float32
  a2 :: float32
  a3 :: float32

definition RT6DBodyEuler :: "RT6DBodyEuler component_type" where
  "RT6DBodyEuler =
     \<lparr>format_size = 12,
      mk = (\<lambda>bs. \<lparr>a1 = le_float (field 0 4 bs), a2 = le_float (field 4 4 bs),
                  a3 = le_float (field 8 4 bs)\<rparr>)\<rparr>"

record RTAnalogComponent =
  device_count :: int

definition RTAnalogComponent :: "RTAnalogComponent component_type" where
  "RTAnalogComponent = \<lparr>format_size = 4, mk = (\<lambda>bs. \<lparr>device_count = le_sint (field 0 4 bs)\<rparr>)\<rparr>"

record RTAnalogDevice =
  dev_id :: int
  channel_count :: int
  sample_count :: int

definition RTAnalogDevice :: "RTAnalogDevice component_type" where
  "RTAnalogDevice =
     \<lparr>format_size = 12,
      mk = (\<lambda>bs. \<lparr>dev_id = le_sint (field 0 4 bs), channel_count = le_sint (field 4 4 bs),
                  sample_count = le_sint (field 8 4 bs)\<rparr>)\<rparr>"

record RTSampleNumber =
  sample_number :: int

definition RTSampleNumber :: "RTSampleNumber component_type" where
  "RTSampleNumber = \<lparr>format_size = 4, mk = (\<lambda>bs. \<lparr>sample_number = le_sint (field 0 4 bs)\<rparr>)\<rparr>"

record RTAnalogChannel =
  samples :: "float32 list"

record RTAnalogDeviceSingle =
  ds_id :: int
  ds_channel_count :: int

definition RTAnalogDeviceSingle :: "RTAnalogDeviceSingle component_type" where
  "RTAnalogDeviceSingle =
     \<lparr>format_size = 8,
      mk = (\<lambda>bs. \<lparr>ds_id = le_sint (field 0 4 bs), ds_channel_count = le_sint (field 4 4 bs)\<rparr>)\<rparr>"

record RTAnalogDeviceSamples =
  ds_samples :: "float32 list"

record RTForceComponent =
  plate_count :: int

definition RTForceComponent :: "RTForceComponent component_type" where
  "RTForceComponent = \<lparr>format_size = 4, mk = (\<lambda>bs. \<lparr>plate_count = le_sint (field 0 4 bs)\<rparr>)\<rparr>"

record RTForcePlate =
  plate_id :: int
  force_count :: int
  force_number :: int

definition RTForcePlate :: "RTForcePlate component_type" where
  "RTForcePlate =
     \<lparr>format_size = 12,
      mk = (\<lambda>bs. \<lparr>plate_id = le_sint (field 0 4 bs), force_count = le_sint (field 4 4 bs),
                  force_number = le_sint (field 8 4 bs)\<rparr>)\<rparr>"

record RTForcePlateSingle =
  ps_id :: int

definition RTForcePlateSingle :: "RTForcePlateSingle component_type" where
  "RTForcePlateSingle = \<lparr>format_size = 4, mk = (\<lambda>bs. \<lparr>ps_id = le_sint (field 0 4 bs)\<rparr>)\<rparr>"

record RTForce =
  f_x :: float32
  f_y :: float32
  f_z :: float32
  f_x_m :: float32
  f_y_m :: float32
  f_z_m :: float32
  f_x_a :: float32
  f_y_a :: float32
  f_z_a :: float32

definition RTForce :: "RTForce component_type" where
  "RTForce =
     \<lparr>format_size = 36,
      mk = (\<lambda>bs. \<lparr>f_x = le_float (field 0 4 bs), f_y = le_float (field 4 4 bs),
                  f_z = le_float (field 8 4 bs), f_x_m = le_float (field 12 4 bs),
                  f_y_m = le_float (field 16 4 bs), f_z_m = le_float (field 20 4 bs),
                  f_x_a = le_float (field 24 4 bs), f_y_a = le_float (field 28 4 bs),
                  f_z_a = le_float (field 32 4 bs)\<rparr>)\<rparr>"

record RTImageComponent =
  image_count :: int

definition RTImageComponent :: "RTImageComponent component_type" where
  "RTImageComponent = \<lparr>format_size = 4, mk = (\<lambda>bs. \<lparr>image_count = le_sint (field 0 4 bs)\<rparr>)\<rparr>"

record RTImage =
  img_id :: int
  img_format :: int
  width :: int
  height :: int
  left_crop :: float32
  top_crop :: float32
  right_crop :: float32
  bottom_crop :: float32
  image_size :: int

definition RTImage :: "RTImage component_type" where
  "RTImage =
     \<lparr>format_size = 36,
      mk = (\<lambda>bs. \<lparr>img_id = le_sint (field 0 4 bs), img_format = le_sint (field 4 4 bs),
                  width = le_sint (field 8 4 bs), height = le_sint (field 12 4 bs),
                  left_crop = le_float (field 16 4 bs), top_crop = le_float (field 20 4 bs),
                  right_crop = le_float (field 24 4 bs), bottom_crop = le_float (field 28 4 bs),
                  image_size = le_sint (field 32 4 bs)\<rparr>)\<rparr>"

record RTSkeletonComponent =
  skeleton_count :: int

definition RTSkeletonComponent :: "RTSkeletonComponent component_type" where
  "RTSkeletonComponent =
     \<lparr>format_size = 4, mk = (\<lambda>bs. \<lparr>skeleton_count = le_sint (field 0 4 bs)\<rparr>)\<rparr>"

record RTJointCount =
  joint_count :: int

definition RTJointCount :: "RTJointCount component_type" where
  "RTJointCount = \<lparr>format_size = 4, mk = (\<lambda>bs. \<lparr>joint_count = le_sint (field 0 4 bs)\<rparr>)\<rparr>"

record RTJointId =
  joint_id :: int

definition RTJointId :: "RTJointId component_type" where
  "RTJointId = \<lparr>format_size = 4, mk = (\<lambda>bs. \<lparr>joint_id = le_sint (field 0 4 bs)\<rparr>)\<rparr>"

record RTJointPosition =
  jp_x :: float32
  jp_y :: float32
  jp_z :: float32

definition RTJointPosition :: "RTJointPosition component_type" where
  "RTJointPosition =
     \<lparr>format_size = 12,
      mk = (\<lambda>bs. \<lparr>jp_x = le_float (field 0 4 bs), jp_y = le_float (field 4 4 bs),
                  jp_z = le_float (field 8 4 bs)\<rparr>)\<rparr>"

record RTJointRotation =
  jr_x :: float32
  jr_y :: float32
  jr_z :: float32
  jr_w :: float32

definition RTJointRotation :: "RTJointRotation component_type" where
  "RTJointRotation =
     \<lparr>format_size = 16,
      mk = (\<lambda>bs. \<lparr>jr_x = le_float (field 0 4 bs), jr_y = le_float (field 4 4 bs),
                  jr_z = le_float (field 8 4 bs), jr_w = le_float (field 12 4 bs)\<rparr>)\<rparr>"

section \<open>Shared format descriptors\<close>

text \<open>
  \<open>RTAnalogChannel.format\<close> and \<open>RTAnalogDeviceSamples.format\<close> are class attributes that
  the analog decoders rebind on every call; they are the only state of the module that
  outlives a call. \<open>None\<close> is the attribute not bound yet, \<open>Some n\<close> is
  \<open>struct.Struct("<%df" % n)\<close>.
\<close>

record globals =
  RTAnalogChannel_format :: "nat option"
  RTAnalogDeviceSamples_format :: "nat option"

text \<open>\<open>struct.Struct("<%df" % n)\<close>: a negative repeat count is no format.\<close>

definition Struct_floats :: "int \<Rightarrow> error + nat" where
  "Struct_floats n = (if n < 0 then Inl StructError else Inr (nat n))"

definition RTAnalogChannel :: "nat \<Rightarrow> RTAnalogChannel component_type" where
  "RTAnalogChannel n = \<lparr>format_size = 4 * n, mk = (\<lambda>bs. \<lparr>samples = le_floats n bs\<rparr>)\<rparr>"

definition RTAnalogDeviceSamples :: "nat \<Rightarrow> RTAnalogDeviceSamples component_type" where
  "RTAnalogDeviceSamples n =
     \<lparr>format_size = 4 * n, mk = (\<lambda>bs. \<lparr>ds_samples = le_floats n bs\<rparr>)\<rparr>"

text \<open>A \<open>for\<close> loop whose body may rebind the descriptors; they survive an exception.\<close>

fun for_range_g ::
  "nat \<Rightarrow> nat \<Rightarrow> (nat \<Rightarrow> 's \<Rightarrow> globals \<Rightarrow> globals \<times> (error + 's)) \<Rightarrow> 's \<Rightarrow> globals
     \<Rightarrow> globals \<times> (error + 's)" where
  "for_range_g i 0 body s g = (g, Inr s)"
| "for_range_g i (Suc n) body s g =
     (case body i s g of
        (g', Inl e) \<Rightarrow> (g', Inl e)
      | (g', Inr s') \<Rightarrow> for_range_g (Suc i) n body s' g')"

section \<open>The decorator\<close>

text \<open>
  \<open>ComponentGetter(component_enum, base_component)(function)\<close>: the wrapper looks the kind
  up in \<open>self.components\<close>, returns \<open>None\<close> when it is absent, and otherwise reads the
  component's header and returns it with the result of the decorated function.
\<close>

definition ComponentGetter ::
  "QRTComponentType \<Rightarrow> 'h component_type
     \<Rightarrow> ('h \<Rightarrow> buffer \<Rightarrow> int \<Rightarrow> globals \<Rightarrow> globals \<times> (error + 'r))
     \<Rightarrow> QRTPacket \<Rightarrow> globals \<Rightarrow> globals \<times> (error + ('h \<times> 'r) option)" where
  "ComponentGetter component_enum base_component function calling_object g =
     (case components calling_object component_enum of
        None \<Rightarrow> (g, Inr None)
      | Some component_position \<Rightarrow>
          (case get_exact base_component (data calling_object) component_position of
             Inl e \<Rightarrow> (g, Inl e)
           | Inr (component_position', component_info) \<Rightarrow>
               (case function component_info (data calling_object) component_position' g of
                  (g', Inl e) \<Rightarrow> (g', Inl e)
                | (g', Inr r) \<Rightarrow> (g', Inr (Some (component_info, r))))))"

text \<open>A decorated function that does not touch the descriptors.\<close>

definition unchanged ::
  "('h \<Rightarrow> buffer \<Rightarrow> int \<Rightarrow> error + 'r) \<Rightarrow> 'h \<Rightarrow> buffer \<Rightarrow> int \<Rightarrow> globals
     \<Rightarrow> globals \<times> (error + 'r)" where
  "unchanged f component_info buf component_position g = (g, f component_info buf component_position)"

text \<open>\<open>return components\<close>: the loops end by dropping the offset.\<close>

definition return_components :: "error + (int \<times> 'c) \<Rightarrow> error + 'c" where
  "return_components r = (case r of Inl e \<Rightarrow> Inl e | Inr (component_position, comps) \<Rightarrow> Inr comps)"

section \<open>Component decoders\<close>

text \<open>
  Each loop state is the pair of \<open>component_position\<close> and the list built so far. The
  statement pair \<open>component_position, v = _get_exact(T, data, component_position);
  append(v)\<close> is \<open>read_append\<close>.
\<close>

definition read_append ::
  "'a component_type \<Rightarrow> buffer \<Rightarrow> nat \<Rightarrow> int \<times> 'a list \<Rightarrow> error + (int \<times> 'a list)" where
  "read_append marker_type buf i s =
     (case s of (component_position, comps) \<Rightarrow>
        (case get_exact marker_type buf component_position of
           Inl e \<Rightarrow> Inl e
         | Inr (component_position', v) \<Rightarrow> Inr (component_position', comps @ [v])))"

subsection \<open>2D\<close>

definition get_2d_markers_camera ::
  "buffer \<Rightarrow> int option \<Rightarrow> nat \<Rightarrow> int \<times> RT2DMarker list list
     \<Rightarrow> error + (int \<times> RT2DMarker list list)" where
  "get_2d_markers_camera buf index camera s =
     (case s of (component_position, comps) \<Rightarrow>
        (case get_exact RT2DCamera buf component_position of
           Inl e \<Rightarrow> Inl e
         | Inr (component_position1, camera_info) \<Rightarrow>
             if index = None \<or> index = Some (int camera) then
               (case for_range 0 (nat (marker_count camera_info)) (read_append RT2DMarker buf)
                       (component_position1, []) of
                  Inl e \<Rightarrow> Inl e
                | Inr (component_position2, marker_list) \<Rightarrow>
                    Inr (component_position2, comps @ [marker_list]))
             else
               Inr (component_position1 + 12 * marker_count camera_info, comps)))"

definition get_2d_markers_loop ::
  "buffer \<Rightarrow> RT2DComponent \<Rightarrow> int \<Rightarrow> int option \<Rightarrow> error + (int \<times> RT2DMarker list list)" where
  "get_2d_markers_loop buf component_info component_position index =
     for_range 0 (camera_count component_info) (get_2d_markers_camera buf index)
       (component_position, [])"

definition QRTPacket_get_2d_markers ::
  "buffer \<Rightarrow> RT2DComponent \<Rightarrow> int \<Rightarrow> int option \<Rightarrow> error + RT2DMarker list list" where
  "QRTPacket_get_2d_markers buf component_info component_position index =
     return_components (get_2d_markers_loop buf component_info component_position index)"

definition get_2d_markers ::
  "QRTPacket \<Rightarrow> int option \<Rightarrow> globals
     \<Rightarrow> globals \<times> (error + (RT2DComponent \<times> RT2DMarker list list) option)" where
  "get_2d_markers self index =
     ComponentGetter Component2d RT2DComponent
       (unchanged (\<lambda>component_info buf component_position.
          QRTPacket_get_2d_markers buf component_info component_position index)) self"

definition get_2d_markers_linearized ::
  "QRTPacket \<Rightarrow> int option \<Rightarrow> globals
     \<Rightarrow> globals \<times> (error + (RT2DComponent \<times> RT2DMarker list list) option)" where
  "get_2d_markers_linearized self index =
     ComponentGetter Component2dLin RT2DComponent
       (unchanged (\<lambda>component_info buf component_position.
          QRTPacket_get_2d_markers buf component_info component_position index)) self"

subsection \<open>3D\<close>

definition get_3d_markers_loop ::
  "'a component_type \<Rightarrow> RT3DComponent \<Rightarrow> buffer \<Rightarrow> int \<Rightarrow> error + (int \<times> 'a list)" where
  "get_3d_markers_loop marker_type component_info buf component_position =
     for_range 0 (c3d_marker_count component_info) (read_append marker_type buf) (component_position, [])"

definition QRTPacket_get_3d_markers ::
  "'a component_type \<Rightarrow> RT3DComponent \<Rightarrow> buffer \<Rightarrow> int \<Rightarrow> error + 'a list" where
  "QRTPacket_get_3d_markers marker_type component_info buf component_position =
     return_components (get_3d_markers_loop marker_type component_info buf component_position)"

definition get_3d_markers ::
  "QRTPacket \<Rightarrow> globals \<Rightarrow> globals \<times> (error + (RT3DComponent \<times> RT3DMarkerPosition list) option)"
where
  "get_3d_markers =
     ComponentGetter Component3d RT3DComponent
       (unchanged (QRTPacket_get_3d_markers RT3DMarkerPosition))"

definition get_3d_markers_residual ::
  "QRTPacket \<Rightarrow> globals
     \<Rightarrow> globals \<times> (error + (RT3DComponent \<times> RT3DMarkerPositionResidual list) option)" where
  "get_3d_markers_residual =
     ComponentGetter Component3dRes RT3DComponent
       (unchanged (QRTPacket_get_3d_markers RT3DMarkerPositionResidual))"

definition get_3d_markers_no_label ::
  "QRTPacket \<Rightarrow> globals
     \<Rightarrow> globals \<times> (error + (RT3DComponent \<times> RT3DMarkerPositionNoLabel list) option)" where
  "get_3d_markers_no_label =
     ComponentGetter Component3dNoLabels RT3DComponent
       (unchanged (QRTPacket_get_3d_markers RT3DMarkerPositionNoLabel))"

definition get_3d_markers_no_label_residual ::
  "QRTPacket \<Rightarrow> globals
     \<Rightarrow> globals \<times> (error + (RT3DComponent \<times> RT3DMarkerPositionNoLabelResidual list) option)"
where
  "get_3d_markers_no_label_residual =
     ComponentGetter Component3dNoLabelsRes RT3DComponent
       (unchanged (QRTPacket_get_3d_markers RT3DMarkerPositionNoLabelResidual))"

subsection \<open>Analog\<close>

type_synonym analog_item = "RTAnalogDevice \<times> RTSampleNumber \<times> RTAnalogChannel"

definition get_analog_channel ::
  "globals \<Rightarrow> buffer \<Rightarrow> RTAnalogDevice \<Rightarrow> RTSampleNumber \<Rightarrow> nat \<Rightarrow> int \<times> analog_item list
     \<Rightarrow> error + (int \<times> analog_item list)" where
  "get_analog_channel g buf device sample_no i s =
     (case s of (component_position, comps) \<Rightarrow>
        (case RTAnalogChannel_format g of
           None \<Rightarrow> Inl AttributeError
         | Some n \<Rightarrow>
             (case get_tuple (RTAnalogChannel n) buf component_position of
                Inl e \<Rightarrow> Inl e
              | Inr (component_position', channel) \<Rightarrow>
                  Inr (component_position', comps @ [(device, sample_no, channel)]))))"

definition get_analog_device ::
  "buffer \<Rightarrow> nat \<Rightarrow> int \<times> analog_item list \<Rightarrow> globals
     \<Rightarrow> globals \<times> (error + (int \<times> analog_item list))" where
  "get_analog_device buf i s g =
     (case s of (component_position, comps) \<Rightarrow>
        (case get_exact RTAnalogDevice buf component_position of
           Inl e \<Rightarrow> (g, Inl e)
         | Inr (component_position1, device) \<Rightarrow>
             if sample_count device > 0 then
               (case get_exact RTSampleNumber buf component_position1 of
                  Inl e \<Rightarrow> (g, Inl e)
                | Inr (component_position2, sample_no) \<Rightarrow>
                    (case Struct_floats (sample_count device) of
                       Inl e \<Rightarrow> (g, Inl e)
                     | Inr n \<Rightarrow>
                         (let g' = g\<lparr>RTAnalogChannel_format := Some n\<rparr>
                          in (g', for_range 0 (nat (channel_count device))
                                    (get_analog_channel g' buf device sample_no)
                                    (component_position2, comps)))))
             else (g, Inr (component_position1, comps))))"

definition get_analog_loop ::
  "RTAnalogComponent \<Rightarrow> buffer \<Rightarrow> int \<Rightarrow> globals
     \<Rightarrow> globals \<times> (error + (int \<times> analog_item list))" where
  "get_analog_loop component_info buf component_position g =
     for_range_g 0 (nat (device_count component_info)) (get_analog_device buf)
       (component_position, []) g"

definition get_analog_function ::
  "RTAnalogComponent \<Rightarrow> buffer \<Rightarrow> int \<Rightarrow> globals \<Rightarrow> globals \<times> (error + analog_item list)" where
  "get_analog_function component_info buf component_position g =
     (case get_analog_loop component_info buf component_position g of
        (g', r) \<Rightarrow> (g', return_components r))"

definition get_analog ::
  "QRTPacket \<Rightarrow> globals \<Rightarrow> globals \<times> (error + (RTAnalogComponent \<times> analog_item list) option)"
where
  "get_analog = ComponentGetter ComponentAnalog RTAnalogComponent get_analog_function"

type_synonym analog_single_item = "RTAnalogDeviceSingle \<times> RTAnalogDeviceSamples"

definition get_analog_single_device ::
  "buffer \<Rightarrow> nat \<Rightarrow> int \<times> analog_single_item list \<Rightarrow> globals
     \<Rightarrow> globals \<times> (error + (int \<times> analog_single_item list))" where
  "get_analog_single_device buf i s g =
     (case s of (component_position, comps) \<Rightarrow>
        (case get_exact RTAnalogDeviceSingle buf component_position of
           Inl e \<Rightarrow> (g, Inl e)
         | Inr (component_position1, device) \<Rightarrow>
             (case Struct_floats (ds_channel_count device) of
                Inl e \<Rightarrow> (g, Inl e)
              | Inr n \<Rightarrow>
                  (let g' = g\<lparr>RTAnalogDeviceSamples_format := Some n\<rparr>
                   in (case RTAnalogDeviceSamples_format g' of
                         None \<Rightarrow> (g', Inl AttributeError)
                       | Some m \<Rightarrow>
                           (case get_tuple (RTAnalogDeviceSamples m) buf component_position1 of
                              Inl e \<Rightarrow> (g', Inl e)
                            | Inr (component_position2, sample) \<Rightarrow>
                                (g', Inr (component_position2, comps @ [(device, sample)]))))))))"

definition get_analog_single_loop ::
  "RTAnalogComponent \<Rightarrow> buffer \<Rightarrow> int \<Rightarrow> globals
     \<Rightarrow> globals \<times> (error + (int \<times> analog_single_item list))" where
  "get_analog_single_loop component_info buf component_position g =
     for_range_g 0 (nat (device_count component_info)) (get_analog_single_device buf)
       (component_position, []) g"

definition get_analog_single_function ::
  "RTAnalogComponent \<Rightarrow> buffer \<Rightarrow> int \<Rightarrow> globals
     \<Rightarrow> globals \<times> (error + analog_single_item list)" where
  "get_analog_single_function component_info buf component_position g =
     (case get_analog_single_loop component_info buf component_position g of
        (g', r) \<Rightarrow> (g', return_components r))"

definition get_analog_single ::
  "QRTPacket \<Rightarrow> globals
     \<Rightarrow> globals \<times> (error + (RTAnalogComponent \<times> analog_single_item list) option)" where
  "get_analog_single =
     ComponentGetter ComponentAnalogSingle RTAnalogComponent get_analog_single_function"

subsection \<open>Force\<close>

definition get_force_plate ::
  "buffer \<Rightarrow> nat \<Rightarrow> int \<times> (RTForcePlate \<times> RTForce list) list
     \<Rightarrow> error + (int \<times> (RTForcePlate \<times> RTForce list) list)" where
  "get_force_plate buf i s =
     (case s of (component_position, comps) \<Rightarrow>
        (case get_exact RTForcePlate buf component_position of
           Inl e \<Rightarrow> Inl e
         | Inr (component_position1, plate) \<Rightarrow>
             (case for_range 0 (nat (force_count plate)) (read_append RTForce buf)
                     (component_position1, []) of
                Inl e \<Rightarrow> Inl e
              | Inr (component_position2, force_list) \<Rightarrow>
                  Inr (component_position2, comps @ [(plate, force_list)]))))"

definition get_force_loop ::
  "RTForceComponent \<Rightarrow> buffer \<Rightarrow> int \<Rightarrow> error + (int \<times> (RTForcePlate \<times> RTForce list) list)"
where
  "get_force_loop component_info buf component_position =
     for_range 0 (nat (plate_count component_info)) (get_force_plate buf) (component_position, [])"

definition get_force ::
  "QRTPacket \<Rightarrow> globals
     \<Rightarrow> globals \<times> (error + (RTForceComponent \<times> (RTForcePlate \<times> RTForce list) list) option)"
where
  "get_force =
     ComponentGetter ComponentForce RTForceComponent
       (unchanged (\<lambda>component_info buf component_position.
          return_components (get_force_loop component_info buf component_position)))"

definition get_force_single_plate ::
  "buffer \<Rightarrow> nat \<Rightarrow> int \<times> (RTForcePlateSingle \<times> RTForce) list
     \<Rightarrow> error + (int \<times> (RTForcePlateSingle \<times> RTForce) list)" where
  "get_force_single_plate buf i s =
     (case s of (component_position, comps) \<Rightarrow>
        (case get_exact RTForcePlateSingle buf component_position of
           Inl e \<Rightarrow> Inl e
         | Inr (component_position1, plate) \<Rightarrow>
             (case get_exact RTForce buf component_position1 of
                Inl e \<Rightarrow> Inl e
              | Inr (component_position2, force) \<Rightarrow>
                  Inr (component_position2, comps @ [(plate, force)]))))"

definition get_force_single_loop ::
  "RTForceComponent \<Rightarrow> buffer \<Rightarrow> int
     \<Rightarrow> error + (int \<times> (RTForcePlateSingle \<times> RTForce) list)" where
  "get_force_single_loop component_info buf component_position =
     for_range 0 (nat (plate_count component_info)) (get_force_single_plate buf)
       (component_position, [])"

definition get_force_single ::
  "QRTPacket \<Rightarrow> globals
     \<Rightarrow> globals \<times> (error + (RTForceComponent \<times> (RTForcePlateSingle \<times> RTForce) list) option)"
where
  "get_force_single =
     ComponentGetter ComponentForceSingle RTForceComponent
       (unchanged (\<lambda>component_info buf component_position.
          return_components (get_force_single_loop component_info buf component_position)))"

subsection \<open>6D\<close>

definition get_6d_body ::
  "buffer \<Rightarrow> nat \<Rightarrow> int \<times> (RT6DBodyPosition \<times> RT6DBodyRotation) list
     \<Rightarrow> error + (int \<times> (RT6DBodyPosition \<times> RT6DBodyRotation) list)" where
  "get_6d_body buf i s =
     (case s of (component_position, comps) \<Rightarrow>
        (case get_exact RT6DBodyPosition buf component_position of
           Inl e \<Rightarrow> Inl e
         | Inr (component_position1, position) \<Rightarrow>
             (case get_tuple RT6DBodyRotation buf component_position1 of
                Inl e \<Rightarrow> Inl e
              | Inr (component_position2, rot) \<Rightarrow>
                  Inr (component_position2, comps @ [(position, rot)]))))"

definition get_6d_loop ::
  "RT6DComponent \<Rightarrow> buffer \<Rightarrow> int
     \<Rightarrow> error + (int \<times> (RT6DBodyPosition \<times> RT6DBodyRotation) list)" where
  "get_6d_loop component_info buf component_position =
     for_range 0 (nat (body_count component_info)) (get_6d_body buf) (component_position, [])"

definition get_6d ::
  "QRTPacket \<Rightarrow> globals
     \<Rightarrow> globals \<times> (error + (RT6DComponent \<times> (RT6DBodyPosition \<times> RT6DBodyRotation) list) option)"
where
  "get_6d =
     ComponentGetter Component6d RT6DComponent
       (unchanged (\<lambda>component_info buf component_position.
          return_components (get_6d_loop component_info buf component_position)))"

definition get_6d_residual_body ::
  "buffer \<Rightarrow> nat \<Rightarrow> int \<times> (RT6DBodyPosition \<times> RT6DBodyRotation \<times> RT6DBodyResidual) list
     \<Rightarrow> error + (int \<times> (RT6DBodyPosition \<times> RT6DBodyRotation \<times> RT6DBodyResidual) list)" where
  "get_6d_residual_body buf i s =
     (case s of (component_position, comps) \<Rightarrow>
        (case get_exact RT6DBodyPosition buf component_position of
           Inl e \<Rightarrow> Inl e
         | Inr (component_position1, position) \<Rightarrow>
             (case get_tuple RT6DBodyRotation buf component_position1 of
                Inl e \<Rightarrow> Inl e
              | Inr (component_position2, rot) \<Rightarrow>
                  (case get_exact RT6DBodyResidual buf component_position2 of
                     Inl e \<Rightarrow> Inl e
                   | Inr (component_position3, res) \<Rightarrow>
                       Inr (component_position3, comps @ [(position, rot, res)])))))"

definition get_6d_residual_loop ::
  "RT6DComponent \<Rightarrow> buffer \<Rightarrow> int
     \<Rightarrow> error + (int \<times> (RT6DBodyPosition \<times> RT6DBodyRotation \<times> RT6DBodyResidual) list)" where
  "get_6d_residual_loop component_info buf component_position =
     for_range 0 (nat (body_count component_info)) (get_6d_residual_body buf)
       (component_position, [])"

definition get_6d_residual ::
  "QRTPacket \<Rightarrow> globals
     \<Rightarrow> globals \<times>
        (error + (RT6DComponent \<times> (RT6DBodyPosition \<times> RT6DBodyRotation \<times> RT6DBodyResidual) list)
           option)" where
  "get_6d_residual =
     ComponentGetter Component6dRes RT6DComponent
       (unchanged (\<lambda>component_info buf component_position.
          return_components (get_6d_residual_loop component_info buf component_position)))"

definition get_6d_euler_body ::
  "buffer \<Rightarrow> nat \<Rightarrow> int \<times> (RT6DBodyPosition \<times> RT6DBodyEuler) list
     \<Rightarrow> error + (int \<times> (RT6DBodyPosition \<times> RT6DBodyEuler) list)" where
  "get_6d_euler_body buf i s =
     (case s of (component_position, comps) \<Rightarrow>
        (case get_exact RT6DBodyPosition buf component_position of
           Inl e \<Rightarrow> Inl e
         | Inr (component_position1, position) \<Rightarrow>
             (case get_exact RT6DBodyEuler buf component_position1 of
                Inl e \<Rightarrow> Inl e
              | Inr (component_position2, euler) \<Rightarrow>
                  Inr (component_position2, comps @ [(position, euler)]))))"

definition get_6d_euler_loop ::
  "RT6DComponent \<Rightarrow> buffer \<Rightarrow> int
     \<Rightarrow> error + (int \<times> (RT6DBodyPosition \<times> RT6DBodyEuler) list)" where
  "get_6d_euler_loop component_info buf component_position =
     for_range 0 (nat (body_count component_info)) (get_6d_euler_body buf) (component_position, [])"

definition get_6d_euler ::
  "QRTPacket \<Rightarrow> globals
     \<Rightarrow> globals \<times> (error + (RT6DComponent \<times> (RT6DBodyPosition \<times> RT6DBodyEuler) list) option)"
where
  "get_6d_euler =
     ComponentGetter Component6dEuler RT6DComponent
       (unchanged (\<lambda>component_info buf component_position.
          return_components (get_6d_euler_loop component_info buf component_position)))"

definition get_6d_euler_residual_body ::
  "buffer \<Rightarrow> nat \<Rightarrow> int \<times> (RT6DBodyPosition \<times> RT6DBodyEuler \<times> RT6DBodyResidual) list
     \<Rightarrow> error + (int \<times> (RT6DBodyPosition \<times> RT6DBodyEuler \<times> RT6DBodyResidual) list)" where
  "get_6d_euler_residual_body buf i s =
     (case s of (component_position, comps) \<Rightarrow>
        (case get_exact RT6DBodyPosition buf component_position of
           Inl e \<Rightarrow> Inl e
         | Inr (component_position1, position) \<Rightarrow>
             (case get_exact RT6DBodyEuler buf component_position1 of
                Inl e \<Rightarrow> Inl e
              | Inr (component_position2, euler) \<Rightarrow>
                  (case get_exact RT6DBodyResidual buf component_position2 of
                     Inl e \<Rightarrow> Inl e
                   | Inr (component_position3, res) \<Rightarrow>
                       Inr (component_position3, comps @ [(position, euler, res)])))))"

definition get_6d_euler_residual_loop ::
  "RT6DComponent \<Rightarrow> buffer \<Rightarrow> int
     \<Rightarrow> error + (int \<times> (RT6DBodyPosition \<times> RT6DBodyEuler \<times> RT6DBodyResidual) list)" where
  "get_6d_euler_residual_loop component_info buf component_position =
     for_range 0 (nat (body_count component_info)) (get_6d_euler_residual_body buf)
       (component_position, [])"

definition get_6d_euler_residual ::
  "QRTPacket \<Rightarrow> globals
     \<Rightarrow> globals \<times>
        (error + (RT6DComponent \<times> (RT6DBodyPosition \<times> RT6DBodyEuler \<times> RT6DBodyResidual) list)
           option)" where
  "get_6d_euler_residual =
     ComponentGetter Component6dEulerRes RT6DComponent
       (unchanged (\<lambda>component_info buf component_position.
          return_components (get_6d_euler_residual_loop component_info buf component_position)))"

subsection \<open>Image\<close>

text \<open>The slice \<open>data[start:stop]\<close> of Python, for any two integers.\<close>

definition py_slice :: "buffer \<Rightarrow> int \<Rightarrow> int \<Rightarrow> buffer" where
  "py_slice buf start stop =
     (let n = int (length buf);
          a = (if start < 0 then max 0 (start + n) else min start n);
          b = (if stop < 0 then max 0 (stop + n) else min stop n)
      in take (nat (b - a)) (drop (nat a) buf))"

definition get_image_body ::
  "buffer \<Rightarrow> nat \<Rightarrow> int \<times> (RTImage \<times> buffer) list \<Rightarrow> error + (int \<times> (RTImage \<times> buffer) list)"
where
  "get_image_body buf i s =
     (case s of (component_position, comps) \<Rightarrow>
        (case get_exact RTImage buf component_position of
           Inl e \<Rightarrow> Inl e
         | Inr (component_position', image_info) \<Rightarrow>
             Inr (component_position',
                  comps @ [(image_info, py_slice buf component_position' (- 1))])))"

definition get_image_loop ::
  "RTImageComponent \<Rightarrow> buffer \<Rightarrow> int \<Rightarrow> error + (int \<times> (RTImage \<times> buffer) list)" where
  "get_image_loop component_info buf component_position =
     for_range 0 (nat (image_count component_info)) (get_image_body buf) (component_position, [])"

definition get_image ::
  "QRTPacket \<Rightarrow> globals
     \<Rightarrow> globals \<times> (error + (RTImageComponent \<times> (RTImage \<times> buffer) list) option)" where
  "get_image =
     ComponentGetter ComponentImage RTImageComponent
       (unchanged (\<lambda>component_info buf component_position.
          return_components (get_image_loop component_info buf component_position)))"

subsection \<open>Skeleton\<close>

type_synonym joint = "int \<times> RTJointPosition \<times> RTJointRotation"

definition get_skeletons_joint ::
  "buffer \<Rightarrow> nat \<Rightarrow> int \<times> joint list \<Rightarrow> error + (int \<times> joint list)" where
  "get_skeletons_joint buf i s =
     (case s of (component_position, joints) \<Rightarrow>
        (case get_exact RTJointId buf component_position of
           Inl e \<Rightarrow> Inl e
         | Inr (component_position1, jnt) \<Rightarrow>
             (case get_exact RTJointPosition buf component_position1 of
                Inl e \<Rightarrow> Inl e
              | Inr (component_position2, position) \<Rightarrow>
                  (case get_exact RTJointRotation buf component_position2 of
                     Inl e \<Rightarrow> Inl e
                   | Inr (component_position3, rotation) \<Rightarrow>
                       Inr (component_position3, joints @ [(joint_id jnt, position, rotation)])))))"

definition get_skeletons_skeleton ::
  "buffer \<Rightarrow> nat \<Rightarrow> int \<times> joint list list \<Rightarrow> error + (int \<times> joint list list)" where
  "get_skeletons_skeleton buf i s =
     (case s of (component_position, comps) \<Rightarrow>
        (case get_exact RTJointCount buf component_position of
           Inl e \<Rightarrow> Inl e
         | Inr (component_position1, info) \<Rightarrow>
             (case for_range 0 (nat (joint_count info)) (get_skeletons_joint buf)
                     (component_position1, []) of
                Inl e \<Rightarrow> Inl e
              | Inr (component_position2, joints) \<Rightarrow>
                  Inr (component_position2, comps @ [joints]))))"

definition get_skeletons_loop ::
  "RTSkeletonComponent \<Rightarrow> buffer \<Rightarrow> int \<Rightarrow> error + (int \<times> joint list list)" where
  "get_skeletons_loop component_info buf component_position =
     for_range 0 (nat (skeleton_count component_info)) (get_skeletons_skeleton buf)
       (component_position, [])"

definition get_skeletons ::
  "QRTPacket \<Rightarrow> globals
     \<Rightarrow> globals \<times> (error + (RTSkeletonComponent \<times> joint list list) option)" where
  "get_skeletons =
     ComponentGetter ComponentSkeleton RTSkeletonComponent
       (unchanged (\<lambda>component_info buf component_position.
          return_components (get_skeletons_loop component_info buf component_position)))"

text \<open>
  One image component holding one image of \<open>image_size = 2\<close>, whose two payload bytes
  170 and 187 end the buffer.
\<close>

definition image_packet :: buffer where
  "image_packet =
     [0, 0, 0, 0, 0, 0, 0, 0, 0, 0, 0, 0, 1, 0, 0, 0, 50, 0, 0, 0, 14, 0, 0, 0, 1, 0, 0, 0,
      1, 0, 0, 0, 0, 0, 0, 0, 2, 0, 0, 0, 1, 0, 0, 0, 0, 0, 0, 0, 0, 0, 0, 0, 0, 0, 0, 0,
      0, 0, 0, 0, 2, 0, 0, 0, 170, 187]"

definition image_header :: RTImage where
  "image_header =
     \<lparr>img_id = 1, img_format = 0, width = 2, height = 1, left_crop = 0, top_crop = 0,
      right_crop = 0, bottom_crop = 0, image_size = 2\<rparr>"

definition g0 :: globals where
  "g0 = \<lparr>RTAnalogChannel_format = None, RTAnalogDeviceSamples_format = None\<rparr>"

subsection \<open>The analog component as the specification describes it\<close>

text \<open>
  Per device: the record \<open>{id, channel_count, sample_count}\<close>; if \<open>sample_count > 0\<close>, a
  \<open>{sample_number}\<close> record and then, for each channel, a float array of length
  \<open>sample_count\<close>. \<open>spec_channels\<close> decodes the arrays of one device, \<open>device_items\<close>
  pairs each of them with the device's two records, and \<open>spec_analog\<close> concatenates
  the items of the devices in order. No format descriptor is involved.
\<close>

fun spec_channels :: "buffer \<Rightarrow> nat \<Rightarrow> nat \<Rightarrow> int \<Rightarrow> error + (int \<times> RTAnalogChannel list)" where
  "spec_channels buf n 0 pos = Inr (pos, [])"
| "spec_channels buf n (Suc c) pos =
     (case unpack_from (4 * n) buf pos of
        Inl e \<Rightarrow> Inl e
      | Inr bs \<Rightarrow>
          (case spec_channels buf n c (pos + int (4 * n)) of
             Inl e \<Rightarrow> Inl e
           | Inr (pos', chans) \<Rightarrow> Inr (pos', \<lparr>samples = le_floats n bs\<rparr> # chans)))"

definition device_items ::
  "RTAnalogDevice \<Rightarrow> RTSampleNumber \<Rightarrow> RTAnalogChannel list \<Rightarrow> analog_item list" where
  "device_items device sample_no chans = map (\<lambda>channel. (device, sample_no, channel)) chans"

fun spec_analog :: "buffer \<Rightarrow> nat \<Rightarrow> int \<Rightarrow> error + (int \<times> analog_item list)" where
  "spec_analog buf 0 pos = Inr (pos, [])"
| "spec_analog buf (Suc d) pos =
     (case get_exact RTAnalogDevice buf pos of
        Inl e \<Rightarrow> Inl e
      | Inr (pos1, device) \<Rightarrow>
          if sample_count device > 0 then
            (case get_exact RTSampleNumber buf pos1 of
               Inl e \<Rightarrow> Inl e
             | Inr (pos2, sample_no) \<Rightarrow>
                 (case spec_channels buf (nat (sample_count device)) (nat (channel_count device))
                         pos2 of
                    Inl e \<Rightarrow> Inl e
                  | Inr (pos3, chans) \<Rightarrow>
                      (case spec_analog buf d pos3 of
                         Inl e \<Rightarrow> Inl e
                       | Inr (pos4, items) \<Rightarrow>
                           Inr (pos4, device_items device sample_no chans @ items))))
          else spec_analog buf d pos1)"

text \<open>
  One analog component with three devices: device 1 with two channels of two samples,
  device 2 with one sample and no channel, device 3 with three channels and no sample.
\<close>

definition analog_packet :: buffer where
  "analog_packet =
     [0, 0, 0, 0, 0, 0, 0, 0, 0, 0, 0, 0, 1, 0, 0, 0, 72, 0, 0, 0, 3, 0, 0, 0, 3, 0, 0, 0,
      1, 0, 0, 0, 2, 0, 0, 0, 2, 0, 0, 0, 7, 0, 0, 0, 1, 0, 0, 0, 2, 0, 0, 0, 3, 0, 0, 0,
      4, 0, 0, 0, 2, 0, 0, 0, 0, 0, 0, 0, 1, 0, 0, 0, 8, 0, 0, 0, 3, 0, 0, 0, 3, 0, 0, 0,
      0, 0, 0, 0]"

definition device1 :: RTAnalogDevice where
  "device1 = \<lparr>dev_id = 1, channel_count = 2, sample_count = 2\<rparr>"

definition device2 :: RTAnalogDevice where
  "device2 = \<lparr>dev_id = 2, channel_count = 0, sample_count = 1\<rparr>"

definition device3 :: RTAnalogDevice where
  "device3 = \<lparr>dev_id = 3, channel_count = 3, sample_count = 0\<rparr>"

text \<open>
  A 2D component with three cameras of marker counts 2, 0 and 1 and status flags 16, 17
  and 18; the same packet with the third camera's status flag changed to 19; and a 2D
  component with two cameras whose first camera announces \<open>marker_count = -1\<close>.
\<close>

definition twod_packet :: buffer where
  "twod_packet =
     [0, 0, 0, 0, 0, 0, 0, 0, 0, 0, 0, 0, 1, 0, 0, 0, 67, 0, 0, 0, 7, 0, 0, 0, 3, 0, 0, 0,
      0, 0, 0, 0, 2, 0, 0, 0, 16, 1, 0, 0, 0, 2, 0, 0, 0, 3, 0, 4, 0, 5, 0, 0, 0, 6, 0, 0,
      0, 7, 0, 8, 0, 0, 0, 0, 0, 17, 1, 0, 0, 0, 18, 9, 0, 0, 0, 10, 0, 0, 0, 11, 0, 12, 0]"

definition twod_packet' :: buffer where
  "twod_packet' =
     [0, 0, 0, 0, 0, 0, 0, 0, 0, 0, 0, 0, 1, 0, 0, 0, 67, 0, 0, 0, 7, 0, 0, 0, 3, 0, 0, 0,
      0, 0, 0, 0, 2, 0, 0, 0, 16, 1, 0, 0, 0, 2, 0, 0, 0, 3, 0, 4, 0, 5, 0, 0, 0, 6, 0, 0,
      0, 7, 0, 8, 0, 0, 0, 0, 0, 17, 1, 0, 0, 0, 19, 9, 0, 0, 0, 10, 0, 0, 0, 11, 0, 12, 0]"

definition negative_count_packet :: buffer where
  "negative_count_packet =
     [0, 0, 0, 0, 0, 0, 0, 0, 0, 0, 0, 0, 1, 0, 0, 0, 26, 0, 0, 0, 7, 0, 0, 0, 2, 0, 0, 0,
      0, 0, 0, 0, 255, 255, 255, 255, 0, 0, 0, 0, 0, 0]"

definition twod_header :: "nat \<Rightarrow> RT2DComponent" where
  "twod_header n = \<lparr>camera_count = n, c2d_drop_rate = 0, c2d_out_of_sync_rate = 0\<rparr>"

definition marker3 :: RT2DMarker where
  "marker3 = \<lparr>m2d_x = 9, m2d_y = 10, m2d_d_x = 11, m2d_d_y = 12\<rparr>"

text \<open>
  \<open>marker_counts_nonneg buf n pos\<close>: every camera record that a walk over \<open>n\<close> cameras
  from \<open>pos\<close> meets, stepping over each camera's 12-byte markers, has a non-negative
  \<open>marker_count\<close>. \<open>pick index i lists\<close> keeps, of the marker lists of the cameras
  numbered from \<open>i\<close>, those of the requested camera, and all of them when no index is given.
\<close>

fun marker_counts_nonneg :: "buffer \<Rightarrow> nat \<Rightarrow> int \<Rightarrow> bool" where
  "marker_counts_nonneg buf 0 pos = True"
| "marker_counts_nonneg buf (Suc n) pos =
     (case get_exact RT2DCamera buf pos of
        Inl e \<Rightarrow> True
      | Inr (pos1, camera_info) \<Rightarrow>
          0 \<le> marker_count camera_info
          \<and> marker_counts_nonneg buf n (pos1 + 12 * marker_count camera_info))"

fun pick :: "int option \<Rightarrow> nat \<Rightarrow> 'a list \<Rightarrow> 'a list" where
  "pick index i [] = []"
| "pick index i (x # xs) =
     (if index = None \<or> index = Some (int i) then [x] else []) @ pick index (Suc i) xs"

definition twod_self :: QRTPacket where
  "twod_self =
     \<lparr>data = twod_packet, timestamp = 0, framenumber = 0, components = [Component2d \<mapsto> 24]\<rparr>"

definition twod_self' :: QRTPacket where
  "twod_self' =
     \<lparr>data = twod_packet', timestamp = 0, framenumber = 0, components = [Component2d \<mapsto> 24]\<rparr>"

section \<open>Calling the accessors\<close>

text \<open>
  The sixteen decorated methods of \<open>QRTPacket\<close>, under one type: \<open>call\<close> invokes the
  method an \<open>accessor\<close> names, \<open>component_enum_of\<close> is the kind given to its decorator, and
  \<open>not_present\<close> is the method's \<open>None\<close>. \<open>run_calls\<close> invokes a sequence of methods on one
  packet, catching each exception, and \<open>decode\<close> constructs the packet first.
\<close>

datatype accessor =
    Get_analog | Get_analog_single | Get_force | Get_force_single
  | Get_6d | Get_6d_residual | Get_6d_euler | Get_6d_euler_residual
  | Get_image
  | Get_3d_markers | Get_3d_markers_residual | Get_3d_markers_no_label
  | Get_3d_markers_no_label_residual
  | Get_2d_markers "int option" | Get_2d_markers_linearized "int option"
  | Get_skeletons

datatype answer =
    Ans_analog "(RTAnalogComponent \<times> analog_item list) option"
  | Ans_analog_single "(RTAnalogComponent \<times> analog_single_item list) option"
  | Ans_force "(RTForceComponent \<times> (RTForcePlate \<times> RTForce list) list) option"
  | Ans_force_single "(RTForceComponent \<times> (RTForcePlateSingle \<times> RTForce) list) option"
  | Ans_6d "(RT6DComponent \<times> (RT6DBodyPosition \<times> RT6DBodyRotation) list) option"
  | Ans_6d_residual
      "(RT6DComponent \<times> (RT6DBodyPosition \<times> RT6DBodyRotation \<times> RT6DBodyResidual) list) option"
  | Ans_6d_euler "(RT6DComponent \<times> (RT6DBodyPosition \<times> RT6DBodyEuler) list) option"
  | Ans_6d_euler_residual
      "(RT6DComponent \<times> (RT6DBodyPosition \<times> RT6DBodyEuler \<times> RT6DBodyResidual) list) option"
  | Ans_image "(RTImageComponent \<times> (RTImage \<times> buffer) list) option"
  | Ans_3d_markers "(RT3DComponent \<times> RT3DMarkerPosition list) option"
  | Ans_3d_markers_residual "(RT3DComponent \<times> RT3DMarkerPositionResidual list) option"
  | Ans_3d_markers_no_label "(RT3DComponent \<times> RT3DMarkerPositionNoLabel list) option"
  | Ans_3d_markers_no_label_residual
      "(RT3DComponent \<times> RT3DMarkerPositionNoLabelResidual list) option"
  | Ans_2d_markers "(RT2DComponent \<times> RT2DMarker list list) option"
  | Ans_2d_markers_linearized "(RT2DComponent \<times> RT2DMarker list list) option"
  | Ans_skeletons "(RTSkeletonComponent \<times> joint list list) option"

definition answer_with ::
  "('a \<Rightarrow> answer) \<Rightarrow> globals \<times> (error + 'a) \<Rightarrow> globals \<times> (error + answer)" where
  "answer_with wrap r = (case r of (g', Inl e) \<Rightarrow> (g', Inl e) | (g', Inr v) \<Rightarrow> (g', Inr (wrap v)))"

fun call :: "accessor \<Rightarrow> QRTPacket \<Rightarrow> globals \<Rightarrow> globals \<times> (error + answer)" where
  "call Get_analog self g = answer_with Ans_analog (get_analog self g)"
| "call Get_analog_single self g = answer_with Ans_analog_single (get_analog_single self g)"
| "call Get_force self g = answer_with Ans_force (get_force self g)"
| "call Get_force_single self g = answer_with Ans_force_single (get_force_single self g)"
| "call Get_6d self g = answer_with Ans_6d (get_6d self g)"
| "call Get_6d_residual self g = answer_with Ans_6d_residual (get_6d_residual self g)"
| "call Get_6d_euler self g = answer_with Ans_6d_euler (get_6d_euler self g)"
| "call Get_6d_euler_residual self g =
     answer_with Ans_6d_euler_residual (get_6d_euler_residual self g)"
| "call Get_image self g = answer_with Ans_image (get_image self g)"
| "call Get_3d_markers self g = answer_with Ans_3d_markers (get_3d_markers self g)"
| "call Get_3d_markers_residual self g =
     answer_with Ans_3d_markers_residual (get_3d_markers_residual self g)"
| "call Get_3d_markers_no_label self g =
     answer_with Ans_3d_markers_no_label (get_3d_markers_no_label self g)"
| "call Get_3d_markers_no_label_residual self g =
     answer_with Ans_3d_markers_no_label_residual (get_3d_markers_no_label_residual self g)"
| "call (Get_2d_markers index) self g = answer_with Ans_2d_markers (get_2d_markers self index g)"
| "call (Get_2d_markers_linearized index) self g =
     answer_with Ans_2d_markers_linearized (get_2d_markers_linearized self index g)"
| "call Get_skeletons self g = answer_with Ans_skeletons (get_skeletons self g)"



fun run_calls :: "accessor list \<Rightarrow> QRTPacket \<Rightarrow> globals \<Rightarrow> globals \<times> (error + answer) list"
where
  "run_calls [] self g = (g, [])"
| "run_calls (a # calls) self g =
     (case call a self g of
        (g', r) \<Rightarrow> (case run_calls calls self g' of (g'', rs) \<Rightarrow> (g'', r # rs)))"

definition decode ::
  "buffer \<Rightarrow> accessor list \<Rightarrow> globals
     \<Rightarrow> globals \<times> (error + (QRTPacket \<times> (error + answer) list))" where
  "decode buf calls g =
     (case QRTPacket_init buf of
        Inl e \<Rightarrow> (g, Inl e)
      | Inr self \<Rightarrow> (case run_calls calls self g of (g', rs) \<Rightarrow> (g', Inr (self, rs))))"

section \<open>Decoding steps that stay inside the buffer\<close>

text \<open>
  A step takes the buffer and a state whose first component is the offset. It is
  \<open>safe_step\<close> when, started at a non-negative offset, it can only fail with
  \<open>struct.error\<close>, and when it succeeds the offset has not moved back, it lies inside the
  buffer unless it has not moved at all, and the same result is obtained on every extension
  of the buffer. The four combinators below are the shapes the decoders are made of: one
  read, a check that reads nothing, a sequence, and an inner loop.
\<close>

definition safe_step :: "(buffer \<Rightarrow> int \<times> 'c \<Rightarrow> error + (int \<times> 'd)) \<Rightarrow> bool" where
  "safe_step f =
     (\<forall>buf pos c. 0 \<le> pos \<longrightarrow>
        (case f buf (pos, c) of
           Inl e \<Rightarrow> e = StructError
         | Inr (pos', c') \<Rightarrow>
             pos \<le> pos' \<and> (pos' = pos \<or> pos' \<le> int (length buf))
             \<and> (\<forall>ext. f (buf @ ext) (pos, c) = Inr (pos', c'))))"

definition reading ::
  "('c \<Rightarrow> 'v component_type) \<Rightarrow> ('c \<Rightarrow> 'v \<Rightarrow> 'd) \<Rightarrow> buffer \<Rightarrow> int \<times> 'c \<Rightarrow> error + (int \<times> 'd)"
where
  "reading ct k buf s =
     (case s of (pos, c) \<Rightarrow>
        (case get_exact (ct c) buf pos of Inl e \<Rightarrow> Inl e | Inr (p, v) \<Rightarrow> Inr (p, k c v)))"

definition guarding ::
  "('c \<Rightarrow> error + 'd) \<Rightarrow> buffer \<Rightarrow> int \<times> 'c \<Rightarrow> error + (int \<times> 'd)" where
  "guarding chk buf s =
     (case s of (pos, c) \<Rightarrow> (case chk c of Inl e \<Rightarrow> Inl e | Inr d \<Rightarrow> Inr (pos, d)))"

definition and_then ::
  "(buffer \<Rightarrow> 's \<Rightarrow> error + 't) \<Rightarrow> (buffer \<Rightarrow> 't \<Rightarrow> error + 'u) \<Rightarrow> buffer \<Rightarrow> 's \<Rightarrow> error + 'u"
where
  "and_then f h buf s = (case f buf s of Inl e \<Rightarrow> Inl e | Inr t \<Rightarrow> h buf t)"

definition looping ::
  "('c \<Rightarrow> nat) \<Rightarrow> ('c \<Rightarrow> buffer \<Rightarrow> nat \<Rightarrow> int \<times> 'r \<Rightarrow> error + (int \<times> 'r)) \<Rightarrow> ('c \<Rightarrow> 'r)
     \<Rightarrow> ('c \<Rightarrow> 'r \<Rightarrow> 'd) \<Rightarrow> buffer \<Rightarrow> int \<times> 'c \<Rightarrow> error + (int \<times> 'd)" where
  "looping n body init k buf s =
     (case s of (pos, c) \<Rightarrow>
        (case for_range 0 (n c) (body c buf) (pos, init c) of
           Inl e \<Rightarrow> Inl e
         | Inr (p, r) \<Rightarrow> Inr (p, k c r)))"

subsection \<open>Decoders that end where the buffer ends\<close>

text \<open>
  \<open>component_ends_at k base loop self\<close>: the kind \<open>k\<close> is in the directory, its header is
  read, and the decoder \<open>loop\<close>, started right after the header, succeeds and ends at the
  length of the buffer. \<open>ends_at_buffer_end a self\<close> says so of the decoder of the accessor
  \<open>a\<close>, called without a camera index; it is never true of \<open>get_image\<close>, which is left
  out.
\<close>

definition component_ends_at ::
  "QRTComponentType \<Rightarrow> 'h component_type \<Rightarrow> ('h \<Rightarrow> buffer \<Rightarrow> int \<Rightarrow> error + (int \<times> 'c))
     \<Rightarrow> QRTPacket \<Rightarrow> bool" where
  "component_ends_at k base loop self =
     (case components self k of
        None \<Rightarrow> False
      | Some p \<Rightarrow>
          (case get_exact base (data self) p of
             Inl e \<Rightarrow> False
           | Inr (p', info) \<Rightarrow>
               (case loop info (data self) p' of
                  Inl e \<Rightarrow> False
                | Inr (q, comps) \<Rightarrow> q = int (length (data self)))))"

fun ends_at_buffer_end :: "accessor \<Rightarrow> QRTPacket \<Rightarrow> bool" where
  "ends_at_buffer_end Get_analog self =
     component_ends_at ComponentAnalog RTAnalogComponent
       (\<lambda>info buf pos. snd (get_analog_loop info buf pos g0)) self"
| "ends_at_buffer_end Get_analog_single self =
     component_ends_at ComponentAnalogSingle RTAnalogComponent
       (\<lambda>info buf pos. snd (get_analog_single_loop info buf pos g0)) self"
| "ends_at_buffer_end Get_force self =
     component_ends_at ComponentForce RTForceComponent get_force_loop self"
| "ends_at_buffer_end Get_force_single self =
     component_ends_at ComponentForceSingle RTForceComponent get_force_single_loop self"
| "ends_at_buffer_end Get_6d self = component_ends_at Component6d RT6DComponent get_6d_loop self"
| "ends_at_buffer_end Get_6d_residual self =
     component_ends_at Component6dRes RT6DComponent get_6d_residual_loop self"
| "ends_at_buffer_end Get_6d_euler self =
     component_ends_at Component6dEuler RT6DComponent get_6d_euler_loop self"
| "ends_at_buffer_end Get_6d_euler_residual self =
     component_ends_at Component6dEulerRes RT6DComponent get_6d_euler_residual_loop self"
| "ends_at_buffer_end Get_image self = False"
| "ends_at_buffer_end Get_3d_markers self =
     component_ends_at Component3d RT3DComponent (get_3d_markers_loop RT3DMarkerPosition) self"
| "ends_at_buffer_end Get_3d_markers_residual self =
     component_ends_at Component3dRes RT3DComponent
       (get_3d_markers_loop RT3DMarkerPositionResidual) self"
| "ends_at_buffer_end Get_3d_markers_no_label self =
     component_ends_at Component3dNoLabels RT3DComponent
       (get_3d_markers_loop RT3DMarkerPositionNoLabel) self"
| "ends_at_buffer_end Get_3d_markers_no_label_residual self =
     component_ends_at Component3dNoLabelsRes RT3DComponent
       (get_3d_markers_loop RT3DMarkerPositionNoLabelResidual) self"
| "ends_at_buffer_end (Get_2d_markers index) self =
     (index = None \<and> component_ends_at Component2d RT2DComponent
        (\<lambda>info buf pos. get_2d_markers_loop buf info pos None) self)"
| "ends_at_buffer_end (Get_2d_markers_linearized index) self =
     (index = None \<and> component_ends_at Component2dLin RT2DComponent
        (\<lambda>info buf pos. get_2d_markers_loop buf info pos None) self)"
| "ends_at_buffer_end Get_skeletons self =
     component_ends_at ComponentSkeleton RTSkeletonComponent get_skeletons_loop self"

text \<open>
  A packet with one 3D component of one marker, and a packet with an empty 3D component
  followed by a timecode component (kind 17, for which the class has no accessor) of 16
  payload bytes. In both, each entry's size is exactly the length of its component.
\<close>

definition marker_packet :: buffer where
  "marker_packet =
     [0, 0, 0, 0, 0, 0, 0, 0, 0, 0, 0, 0, 1, 0, 0, 0, 28, 0, 0, 0, 1, 0, 0, 0, 1, 0, 0, 0,
      0, 0, 0, 0, 1, 0, 0, 0, 2, 0, 0, 0, 3, 0, 0, 0]"

definition marker_self :: QRTPacket where
  "marker_self =
     \<lparr>data = marker_packet, timestamp = 0, framenumber = 0, components = [Component3d \<mapsto> 24]\<rparr>"

definition timecode_packet :: buffer where
  "timecode_packet =
     [0, 0, 0, 0, 0, 0, 0, 0, 0, 0, 0, 0, 2, 0, 0, 0, 16, 0, 0, 0, 1, 0, 0, 0, 0, 0, 0, 0,
      0, 0, 0, 0, 24, 0, 0, 0, 17, 0, 0, 0, 1, 0, 0, 0, 0, 0, 0, 0, 5, 0, 0, 0, 6, 0, 0, 0]"

definition timecode_components :: "QRTComponentType \<rightharpoonup> int" where
  "timecode_components = [Component3d \<mapsto> 24, ComponentTimecode \<mapsto> 40]"

section \<open>Proofs\<close>

section \<open>Header construction\<close>

lemma unpack_from_length: "unpack_from sz buf pos = Inr bs \<Longrightarrow> length bs = sz"
  by (auto simp: unpack_from_def split: if_splits)

lemma unpack_from_short:
  "0 \<le> pos \<Longrightarrow> int (length buf) < pos + int sz \<Longrightarrow> unpack_from sz buf pos = Inl StructError"
  by (simp add: unpack_from_def)

lemma get_exact_short:
  "0 \<le> pos \<Longrightarrow> int (length buf) < pos + int (format_size ct) \<Longrightarrow>
   get_exact ct buf pos = Inl StructError"
  by (simp add: get_exact_def unpack_from_short)

lemma header_count:
  "get_exact RTDataQRTPacket buf 0 = Inr (p, ts, fn, n) \<Longrightarrow> n = spec_component_count buf"
  by (auto simp: get_exact_def RTDataQRTPacket_def unpack_from_def field_def
      spec_component_count_def take_drop min_def split: sum.splits if_splits)

lemma init_body_entry:
  "init_body buf i (pos, comps) = Inr (pos', comps') \<Longrightarrow>
   \<exists>sz tag k. spec_entries buf (Suc n) pos = (pos, sz, tag) # spec_entries buf n (pos + int sz)
      \<and> QRTComponentType_of tag = Inr k \<and> pos' = pos + int sz \<and> comps' = comps(k \<mapsto> pos + 8)"
  by (auto simp: init_body_def get_exact_def RTComponentData_def field_def
      split: sum.splits prod.splits)

lemma dir_over_Cons:
  "QRTComponentType_of tag = Inr k \<Longrightarrow>
   dir_over comps ((pos, sz, tag) # es) = dir_over (comps(k \<mapsto> pos + 8)) es"
  by (rule ext) (auto simp: dir_over_def spec_directory_def has_kind_def split: list.splits)

lemma dir_over_empty: "dir_over Map.empty es = spec_directory es"
  by (rule ext) (simp add: dir_over_def split: option.splits)

lemma scan_loop:
  "for_range i n (init_body buf) (pos, comps) = Inr (pos', comps') \<Longrightarrow>
   length (spec_entries buf n pos) = n \<and>
   pos' = pos + (\<Sum>e\<leftarrow>spec_entries buf n pos. int (fst (snd e))) \<and>
   comps' = dir_over comps (spec_entries buf n pos)"
proof (induction n arbitrary: i pos comps)
  case 0
  then show ?case by (auto simp: dir_over_def spec_directory_def)
next
  case (Suc n)
  from Suc.prems obtain p1 c1 where b: "init_body buf i (pos, comps) = Inr (p1, c1)"
    and r: "for_range (Suc i) n (init_body buf) (p1, c1) = Inr (pos', comps')"
    by (auto split: sum.splits)
  from init_body_entry [OF b, of n] obtain sz tag k where
    e: "spec_entries buf (Suc n) pos = (pos, sz, tag) # spec_entries buf n (pos + int sz)"
    and k: "QRTComponentType_of tag = Inr k" and p1: "p1 = pos + int sz"
    and c1: "c1 = comps(k \<mapsto> pos + 8)" by blast
  from Suc.IH [OF r] have ih: "length (spec_entries buf n p1) = n"
    "pos' = p1 + (\<Sum>e\<leftarrow>spec_entries buf n p1. int (fst (snd e)))"
    "comps' = dir_over c1 (spec_entries buf n p1)" by simp_all
  have "dir_over comps (spec_entries buf (Suc n) pos) = dir_over c1 (spec_entries buf n p1)"
    unfolding e p1 c1 by (rule dir_over_Cons [OF k])
  with ih show ?case unfolding e p1 by simp
qed

lemma spec_entries_chain:
  "Suc j < length (spec_entries buf n pos) \<Longrightarrow>
   fst (spec_entries buf n pos ! Suc j) =
     fst (spec_entries buf n pos ! j) + int (fst (snd (spec_entries buf n pos ! j)))"
proof (induction n arbitrary: j pos)
  case 0
  then show ?case by simp
next
  case (Suc n)
  show ?case
  proof (cases "unpack_from 8 buf pos")
    case (Inl e)
    with Suc.prems show ?thesis by simp
  next
    case (Inr bs)
    let ?p = "pos + int (le_uint (take 4 bs))"
    show ?thesis
    proof (cases j)
      case 0
      with Suc.prems Inr show ?thesis
        by (cases n) (auto split: sum.splits)
    next
      case (Suc j')
      with Suc.prems Inr have "Suc j' < length (spec_entries buf n ?p)" by simp
      from Suc.IH [OF this] Inr Suc show ?thesis by simp
    qed
  qed
qed

lemma spec_entries_first:
  "spec_entries buf n pos \<noteq> [] \<Longrightarrow> fst (spec_entries buf n pos ! 0) = pos"
  by (cases n) (auto split: sum.splits)

text \<open>
  C3. When header construction succeeds, all \<open>component_count\<close> directory entries were read,
  the first at offset 16 and each next one at the previous entry's offset plus its declared
  size; the scan cursor ends at 16 plus the sum of the declared sizes; and the directory maps
  each kind to \<open>entry_offset + 8\<close> of the last entry carrying that kind's tag (and to nothing
  when no entry carries it).
\<close>

theorem init_directory_walk:
  assumes "QRTPacket_init buf = Inr pkt"
    and "n = spec_component_count buf"
    and "es = spec_entries buf n 16"
  shows "length es = n
    \<and> (es \<noteq> [] \<longrightarrow> fst (es ! 0) = 16)
    \<and> (\<forall>j. Suc j < n \<longrightarrow> fst (es ! Suc j) = fst (es ! j) + int (fst (snd (es ! j))))
    \<and> for_range 0 n (init_body buf) (16, Map.empty)
        = Inr (16 + (\<Sum>e\<leftarrow>es. int (fst (snd e))), components pkt)
    \<and> components pkt = spec_directory es"
proof -
  from assms(1) obtain p ts fn m pos' comps' where
    h: "get_exact RTDataQRTPacket buf 0 = Inr (p, ts, fn, m)"
    and l: "for_range 0 m (init_body buf) (16, Map.empty) = Inr (pos', comps')"
    and c: "components pkt = comps'"
    by (auto simp: QRTPacket_init_def split: sum.splits prod.splits)
  from header_count [OF h] assms(2) have m: "m = n" by simp
  from scan_loop [OF l] m assms(3) have s: "length es = n"
    "pos' = 16 + (\<Sum>e\<leftarrow>es. int (fst (snd e)))" "comps' = spec_directory es"
    by (simp_all add: dir_over_empty)
  have ch: "\<forall>j. Suc j < n \<longrightarrow> fst (es ! Suc j) = fst (es ! j) + int (fst (snd (es ! j)))"
    using spec_entries_chain [of _ buf n 16] s(1) assms(3) by simp
  have fi: "es \<noteq> [] \<longrightarrow> fst (es ! 0) = 16"
    using spec_entries_first [of buf n 16] assms(3) by simp
  from s ch fi l c m show ?thesis by simp
qed


lemma for_range_numeral:
  "for_range i (numeral k) body s =
     (case body i s of Inl e \<Rightarrow> Inl e | Inr s' \<Rightarrow> for_range (Suc i) (pred_numeral k) body s')"
  by (simp add: numeral_eq_Suc)

lemma spec_entries_numeral:
  "spec_entries buf (numeral k) cursor =
     (case unpack_from 8 buf cursor of
        Inl e \<Rightarrow> []
      | Inr bs \<Rightarrow>
          (cursor, le_uint (take 4 bs), le_uint (take 4 (drop 4 bs)))
            # spec_entries buf (pred_numeral k) (cursor + int (le_uint (take 4 bs))))"
  by (simp add: numeral_eq_Suc)

lemma scan_positions_numeral:
  "scan_positions buf (numeral k) cursor =
     cursor #
       (case get_exact RTComponentData buf cursor of
          Inl e \<Rightarrow> []
        | Inr (_, (c_size, c_type)) \<Rightarrow>
            (case QRTComponentType_of c_type of
               Inl e \<Rightarrow> []
             | Inr kind \<Rightarrow> scan_positions buf (pred_numeral k) (cursor + int c_size)))"
  by (simp add: numeral_eq_Suc)

lemmas init_eval =
  QRTPacket_init_def get_exact_def unpack_from_def RTDataQRTPacket_def RTComponentData_def
  field_def le_sint_def init_body_def QRTComponentType_of_def for_range_numeral

lemma dup_packet_init:
  "QRTPacket_init dup_packet =
     Inr \<lparr>data = dup_packet, timestamp = 0, framenumber = 0,
          components = [Component3d \<mapsto> 32]\<rparr>"
  by (simp add: init_eval dup_packet_def)

lemma dup_packet_entries: "spec_entries dup_packet 2 16 = [(16, 8, 1), (24, 8, 1)]"
  by (simp add: dup_packet_def unpack_from_def spec_entries_numeral)

theorem init_directory_walk_witness:
  "QRTPacket_init dup_packet =
     Inr \<lparr>data = dup_packet, timestamp = 0, framenumber = 0,
          components = [Component3d \<mapsto> 32]\<rparr>
   \<and> spec_entries dup_packet 2 16 = [(16, 8, 1), (24, 8, 1)]
   \<and> for_range 0 2 (init_body dup_packet) (16, Map.empty) = Inr (32, [Component3d \<mapsto> 32])
   \<and> spec_directory [(16, 8, 1), (24, 8, 1)] = [Component3d \<mapsto> 32]"
proof -
  have n: "2 = spec_component_count dup_packet"
    by (simp add: spec_component_count_def dup_packet_def)
  from init_directory_walk [OF dup_packet_init n dup_packet_entries [symmetric]]
  show ?thesis by (simp add: dup_packet_init dup_packet_entries)
qed

text \<open>
  C4, as stated, fails: a 24-byte buffer whose only entry declares a span of 1000 bytes is
  accepted, and its directory points at offset 24, the end of the buffer.
\<close>

theorem init_accepts_overlong_span:
  "int (length overlong_packet) < 16 + int (le_uint (field 0 4 (drop 16 overlong_packet)))
   \<and> QRTPacket_init overlong_packet =
       Inr \<lparr>data = overlong_packet, timestamp = 0, framenumber = 0,
            components = [Component3d \<mapsto> 24]\<rparr>"
  by (simp add: init_eval overlong_packet_def)

lemma scan_truncated:
  "q \<in> set (scan_positions buf n pos) \<Longrightarrow> 0 \<le> pos \<Longrightarrow> int (length buf) < q + 8 \<Longrightarrow>
   for_range i n (init_body buf) (pos, comps) = Inl StructError"
proof (induction n arbitrary: i pos comps)
  case 0
  then show ?case by simp
next
  case (Suc n)
  show ?case
  proof (cases "q = pos")
    case True
    with Suc.prems have "get_exact RTComponentData buf pos = Inl StructError"
      by (intro get_exact_short) (simp_all add: RTComponentData_def)
    then show ?thesis by (simp add: init_body_def)
  next
    case False
    with Suc.prems(1) obtain p c_size c_type kind where
      g: "get_exact RTComponentData buf pos = Inr (p, c_size, c_type)"
      and k: "QRTComponentType_of c_type = Inr kind"
      and q: "q \<in> set (scan_positions buf n (pos + int c_size))"
      by (cases "get_exact RTComponentData buf pos")
        (auto split: sum.splits prod.splits dest: sym)
    from Suc.prems(2) have "0 \<le> pos + int c_size" by simp
    from Suc.IH [OF q this Suc.prems(3)] g k show ?thesis
      by (simp add: init_body_def)
  qed
qed

text \<open>
  C4, amended. Header construction fails with \<open>struct.error\<close> whenever the fixed header or a
  directory entry at a cursor position the scan reaches extends past the end of the buffer.
  The span an entry declares in its size field is not compared with the buffer length.
\<close>

theorem init_fails_on_truncated_entry:
  assumes "int (length buf) < 16
     \<or> (\<exists>q \<in> set (scan_positions buf (spec_component_count buf) 16). int (length buf) < q + 8)"
  shows "QRTPacket_init buf = Inl StructError"
proof (cases "int (length buf) < 16")
  case True
  then have "get_exact RTDataQRTPacket buf 0 = Inl StructError"
    by (intro get_exact_short) (simp_all add: RTDataQRTPacket_def)
  then show ?thesis by (simp add: QRTPacket_init_def)
next
  case False
  with assms obtain q where q: "q \<in> set (scan_positions buf (spec_component_count buf) 16)"
    and l: "int (length buf) < q + 8" by blast
  show ?thesis
  proof (cases "get_exact RTDataQRTPacket buf 0")
    case (Inl e)
    with False show ?thesis
      by (simp add: get_exact_def unpack_from_def RTDataQRTPacket_def split: if_splits)
  next
    case (Inr r)
    then obtain p ts fn n where r: "get_exact RTDataQRTPacket buf 0 = Inr (p, ts, fn, n)"
      by (cases r) auto
    from header_count [OF r] q have "q \<in> set (scan_positions buf n 16)" by simp
    from scan_truncated [OF this _ l] r show ?thesis
      by (simp add: QRTPacket_init_def)
  qed
qed

lemma short_packet_positions: "scan_positions short_packet 2 16 = [16, 24]"
  by (simp add: short_packet_def get_exact_def unpack_from_def RTComponentData_def field_def
      QRTComponentType_of_def scan_positions_numeral)

theorem init_fails_on_truncated_entry_witness:
  "24 \<in> set (scan_positions short_packet (spec_component_count short_packet) 16)
   \<and> int (length short_packet) < 24 + 8
   \<and> QRTPacket_init short_packet = Inl StructError"
proof -
  have c: "spec_component_count short_packet = 2"
    by (simp add: spec_component_count_def short_packet_def)
  have m: "24 \<in> set (scan_positions short_packet (spec_component_count short_packet) 16)"
    unfolding c short_packet_positions by simp
  have l: "int (length short_packet) < 24 + 8" by (simp add: short_packet_def)
  from m l have "int (length short_packet) < 16
     \<or> (\<exists>q \<in> set (scan_positions short_packet (spec_component_count short_packet) 16).
           int (length short_packet) < q + 8)" by blast
  from init_fails_on_truncated_entry [OF this] m l show ?thesis by simp
qed

section \<open>Image component\<close>

lemma image_packet_init:
  "QRTPacket_init image_packet =
     Inr \<lparr>data = image_packet, timestamp = 0, framenumber = 0,
          components = [ComponentImage \<mapsto> 24]\<rparr>"
  by (simp add: init_eval image_packet_def)

lemma image_packet_header:
  "get_exact RTImageComponent image_packet 24 = Inr (28, \<lparr>image_count = 1\<rparr>)"
  by (simp add: get_exact_def unpack_from_def RTImageComponent_def field_def le_sint_def
      image_packet_def)

lemma image_packet_loop:
  "get_image_loop \<lparr>image_count = 1\<rparr> image_packet 28 = Inr (64, [(image_header, [170])])"
  by (simp add: get_image_loop_def get_image_body_def get_exact_def unpack_from_def RTImage_def
      field_def le_sint_def le_float_def py_slice_def image_packet_def image_header_def)

text \<open>
  C1 does not hold of \<open>get_image\<close>. On a packet whose single image announces
  \<open>image_size = 2\<close> and whose payload bytes 170, 187 end the buffer, the payload returned
  is the slice from the end of the image header to the last byte of the buffer exclusive,
  here the single byte 170, and the loop's offset stays at 64, the end of the image
  header; the bytes the claim describes are those at offsets 64 and 65.
\<close>

theorem get_image_ignores_image_size:
  "QRTPacket_init image_packet =
     Inr \<lparr>data = image_packet, timestamp = 0, framenumber = 0,
          components = [ComponentImage \<mapsto> 24]\<rparr>
   \<and> get_image \<lparr>data = image_packet, timestamp = 0, framenumber = 0,
                 components = [ComponentImage \<mapsto> 24]\<rparr> g0
       = (g0, Inr (Some (\<lparr>image_count = 1\<rparr>, [(image_header, [170])])))
   \<and> get_image_loop \<lparr>image_count = 1\<rparr> image_packet 28 = Inr (64, [(image_header, [170])])
   \<and> image_size image_header = 2
   \<and> py_slice image_packet 64 (64 + image_size image_header) = [170, 187]"
proof -
  have "get_image \<lparr>data = image_packet, timestamp = 0, framenumber = 0,
                 components = [ComponentImage \<mapsto> 24]\<rparr> g0
       = (g0, Inr (Some (\<lparr>image_count = 1\<rparr>, [(image_header, [170])])))"
    by (simp add: get_image_def ComponentGetter_def unchanged_def image_packet_header
        image_packet_loop return_components_def)
  moreover have "py_slice image_packet 64 (64 + image_size image_header) = [170, 187]"
    by (simp add: py_slice_def image_packet_def image_header_def)
  moreover have "image_size image_header = 2" by (simp add: image_header_def)
  ultimately show ?thesis using image_packet_init image_packet_loop by simp
qed

section \<open>Analog component\<close>

lemma analog_channels_spec:
  "RTAnalogChannel_format g = Some n \<Longrightarrow>
   for_range i c (get_analog_channel g buf device sn) (pos, comps) =
     (case spec_channels buf n c pos of
        Inl e \<Rightarrow> Inl e
      | Inr (pos', chans) \<Rightarrow> Inr (pos', comps @ device_items device sn chans))"
proof (induction c arbitrary: i pos comps)
  case 0
  then show ?case by (simp add: device_items_def)
next
  case (Suc c)
  show ?case
  proof (cases "unpack_from (4 * n) buf pos")
    case (Inl e)
    with Suc.prems show ?thesis
      by (simp add: get_analog_channel_def get_tuple_def RTAnalogChannel_def)
  next
    case (Inr bs)
    with Suc.prems Suc.IH [OF Suc.prems] show ?thesis
      by (simp add: get_analog_channel_def get_tuple_def RTAnalogChannel_def device_items_def
          split: sum.splits)
  qed
qed

lemma analog_device_spec:
  "snd (get_analog_device buf i (pos, comps) g) =
     (case spec_analog buf (Suc 0) pos of
        Inl e \<Rightarrow> Inl e
      | Inr (pos', items) \<Rightarrow> Inr (pos', comps @ items))"
  by (auto simp: get_analog_device_def Struct_floats_def Let_def analog_channels_spec
      split: sum.splits prod.splits)

lemma analog_loop_spec:
  "snd (for_range_g i d (get_analog_device buf) (pos, comps) g) =
     (case spec_analog buf d pos of
        Inl e \<Rightarrow> Inl e
      | Inr (pos', items) \<Rightarrow> Inr (pos', comps @ items))"
proof (induction d arbitrary: i pos comps g)
  case 0
  then show ?case by simp
next
  case (Suc d)
  obtain g' r where b: "get_analog_device buf i (pos, comps) g = (g', r)"
    by (cases "get_analog_device buf i (pos, comps) g")
  from analog_device_spec [of buf i pos comps g] b
  have r: "r = (case spec_analog buf (Suc 0) pos of
        Inl e \<Rightarrow> Inl e
      | Inr (pos', items) \<Rightarrow> Inr (pos', comps @ items))" by simp
  show ?case
  proof (cases r)
    case (Inl e)
    with b r show ?thesis
      by (auto split: sum.splits prod.splits if_splits)
  next
    case (Inr s)
    obtain p c where s: "s = (p, c)" by (cases s)
    from Inr s b have "snd (for_range_g i (Suc d) (get_analog_device buf) (pos, comps) g)
       = snd (for_range_g (Suc i) d (get_analog_device buf) (p, c) g')" by simp
    also have "\<dots> = (case spec_analog buf d p of
        Inl e \<Rightarrow> Inl e
      | Inr (pos', items) \<Rightarrow> Inr (pos', c @ items))" by (rule Suc.IH)
    finally show ?thesis using r Inr s
      by (auto split: sum.splits prod.splits if_splits)
  qed
qed

lemma spec_channels_length:
  "spec_channels buf n c pos = Inr (pos', chans) \<Longrightarrow>
   length chans = c \<and> pos' = pos + int (4 * n * c)"
proof (induction c arbitrary: pos pos' chans)
  case 0
  then show ?case by simp
next
  case (Suc c)
  from Suc.prems obtain bs q cs where
    r: "spec_channels buf n c (pos + int (4 * n)) = Inr (q, cs)"
    and e: "pos' = q" "chans = \<lparr>samples = le_floats n bs\<rparr> # cs"
    by (auto split: sum.splits)
  from Suc.IH [OF r] e show ?case by (simp add: algebra_simps)
qed

lemma analog_packet_device1:
  "get_exact RTAnalogDevice analog_packet 28 = Inr (40, device1)"
  by (simp add: get_exact_def unpack_from_def RTAnalogDevice_def field_def le_sint_def
      analog_packet_def device1_def)

lemma analog_packet_device2:
  "get_exact RTAnalogDevice analog_packet 60 = Inr (72, device2)"
  by (simp add: get_exact_def unpack_from_def RTAnalogDevice_def field_def le_sint_def
      analog_packet_def device2_def)

lemma analog_packet_device3:
  "get_exact RTAnalogDevice analog_packet 76 = Inr (88, device3)"
  by (simp add: get_exact_def unpack_from_def RTAnalogDevice_def field_def le_sint_def
      analog_packet_def device3_def)

lemma analog_packet_sample_number1:
  "get_exact RTSampleNumber analog_packet 40 = Inr (44, \<lparr>sample_number = 7\<rparr>)"
  by (simp add: get_exact_def unpack_from_def RTSampleNumber_def field_def le_sint_def
      analog_packet_def)

lemma analog_packet_sample_number2:
  "get_exact RTSampleNumber analog_packet 72 = Inr (76, \<lparr>sample_number = 8\<rparr>)"
  by (simp add: get_exact_def unpack_from_def RTSampleNumber_def field_def le_sint_def
      analog_packet_def)

text \<open>
  C8. A device whose record reports \<open>sample_count = 0\<close> moves the offset by the 12 bytes
  of that record and nothing else: no sample-number record and no channel array is read,
  the result list and the format descriptors are unchanged, and the next device is decoded
  at that offset.
\<close>

theorem analog_device_without_samples:
  assumes "get_exact RTAnalogDevice buf pos = Inr (pos1, device)"
    and "sample_count device = 0"
  shows "get_analog_device buf i (pos, comps) g = (g, Inr (pos + 12, comps))
    \<and> for_range_g i (Suc n) (get_analog_device buf) (pos, comps) g
        = for_range_g (Suc i) n (get_analog_device buf) (pos + 12, comps) g"
proof -
  from assms(1) have "pos1 = pos + 12"
    by (auto simp: get_exact_def RTAnalogDevice_def split: sum.splits)
  with assms have "get_analog_device buf i (pos, comps) g = (g, Inr (pos + 12, comps))"
    by (simp add: get_analog_device_def)
  then show ?thesis by simp
qed

theorem analog_device_without_samples_witness:
  "get_exact RTAnalogDevice analog_packet 76 = Inr (88, device3)
   \<and> sample_count device3 = 0
   \<and> get_analog_device analog_packet 2 (76, []) g0 = (g0, Inr (88, []))"
proof -
  have s: "sample_count device3 = 0" by (simp add: device3_def)
  from analog_device_without_samples [OF analog_packet_device3 s, of 2 "[]" g0 0]
  show ?thesis using analog_packet_device3 s by simp
qed

lemma le_floats_numeral:
  "le_floats (numeral k) bs = le_float (take 4 bs) # le_floats (pred_numeral k) (drop 4 bs)"
  by (simp add: numeral_eq_Suc)

lemma spec_channels_numeral:
  "spec_channels buf n (numeral k) pos =
     (case unpack_from (4 * n) buf pos of
        Inl e \<Rightarrow> Inl e
      | Inr bs \<Rightarrow>
          (case spec_channels buf n (pred_numeral k) (pos + int (4 * n)) of
             Inl e \<Rightarrow> Inl e
           | Inr (pos', chans) \<Rightarrow> Inr (pos', \<lparr>samples = le_floats n bs\<rparr> # chans)))"
  by (simp add: numeral_eq_Suc)

lemma analog_packet_channels:
  "spec_channels analog_packet 2 2 44
     = Inr (60, [\<lparr>samples = [1, 2]\<rparr>, \<lparr>samples = [3, 4]\<rparr>])"
  by (simp add: spec_channels_numeral le_floats_numeral unpack_from_def analog_packet_def
      le_float_def)

lemma analog_packet_spec:
  "spec_analog analog_packet (Suc (Suc (Suc 0))) 28 =
     Inr (88, [(device1, \<lparr>sample_number = 7\<rparr>, \<lparr>samples = [1, 2]\<rparr>),
               (device1, \<lparr>sample_number = 7\<rparr>, \<lparr>samples = [3, 4]\<rparr>)])"
  by (simp add: analog_packet_device1 analog_packet_device2 analog_packet_device3
      analog_packet_sample_number1 analog_packet_sample_number2 analog_packet_channels
      device_items_def)
    (simp add: device1_def device2_def device3_def analog_packet_channels
      analog_packet_device2 analog_packet_device3 analog_packet_sample_number2 device_items_def)

text \<open>
  C10. Whatever the format descriptors hold on entry, the loop of \<open>get_analog\<close> returns
  what \<open>spec_analog\<close> returns: the items of the devices concatenated in device order, the
  items of one device being its channel arrays in channel order, each paired with the same
  device record and the same sample-number record. A device with \<open>c\<close> channels contributes
  exactly \<open>c\<close> items, and a device with \<open>sample_count > 0\<close> and \<open>channel_count = 0\<close> moves
  the offset past its 12-byte record and its 4-byte sample number and adds no item.
\<close>

theorem get_analog_items:
  "snd (get_analog_loop component_info buf pos g)
     = spec_analog buf (nat (device_count component_info)) pos
   \<and> snd (get_analog_function component_info buf pos g)
     = return_components (spec_analog buf (nat (device_count component_info)) pos)
   \<and> (spec_channels buf n c p = Inr (p', chans) \<longrightarrow>
        length (device_items device sample_no chans) = c \<and> p' = p + int (4 * n * c)
        \<and> (\<forall>j<c. device_items device sample_no chans ! j = (device, sample_no, chans ! j)))
   \<and> (get_exact RTAnalogDevice buf pos = Inr (pos1, device) \<and> 0 < sample_count device
        \<and> channel_count device = 0 \<and> get_exact RTSampleNumber buf pos1 = Inr (pos2, sample_no)
      \<longrightarrow> snd (get_analog_device buf i (pos, comps) g) = Inr (pos + 16, comps))"
proof -
  have l: "snd (get_analog_loop component_info buf pos g)
     = spec_analog buf (nat (device_count component_info)) pos"
    unfolding get_analog_loop_def analog_loop_spec
    by (simp split: sum.splits)
  have f: "snd (get_analog_function component_info buf pos g)
     = return_components (spec_analog buf (nat (device_count component_info)) pos)"
    using l by (cases "get_analog_loop component_info buf pos g")
      (simp add: get_analog_function_def)
  have c: "spec_channels buf n c p = Inr (p', chans) \<longrightarrow>
        length (device_items device sample_no chans) = c \<and> p' = p + int (4 * n * c)
        \<and> (\<forall>j<c. device_items device sample_no chans ! j = (device, sample_no, chans ! j))"
    using spec_channels_length [of buf n c p p' chans] by (auto simp: device_items_def)
  have z: "get_exact RTAnalogDevice buf pos = Inr (pos1, device) \<and> 0 < sample_count device
        \<and> channel_count device = 0 \<and> get_exact RTSampleNumber buf pos1 = Inr (pos2, sample_no)
      \<longrightarrow> snd (get_analog_device buf i (pos, comps) g) = Inr (pos + 16, comps)"
    by (auto simp: get_analog_device_def Struct_floats_def Let_def get_exact_def
        RTAnalogDevice_def RTSampleNumber_def split: sum.splits)
  from l f c z show ?thesis by blast
qed

theorem get_analog_items_witness:
  "snd (get_analog_loop \<lparr>device_count = 3\<rparr> analog_packet 28 g0)
     = Inr (88, [(device1, \<lparr>sample_number = 7\<rparr>, \<lparr>samples = [1, 2]\<rparr>),
                 (device1, \<lparr>sample_number = 7\<rparr>, \<lparr>samples = [3, 4]\<rparr>)])
   \<and> spec_channels analog_packet 2 2 44
     = Inr (60, [\<lparr>samples = [1, 2]\<rparr>, \<lparr>samples = [3, 4]\<rparr>])
   \<and> length (device_items device1 \<lparr>sample_number = 7\<rparr>
        [\<lparr>samples = [1, 2]\<rparr>, \<lparr>samples = [3, 4]\<rparr>]) = 2
   \<and> get_exact RTAnalogDevice analog_packet 60 = Inr (72, device2)
   \<and> 0 < sample_count device2 \<and> channel_count device2 = 0
   \<and> get_exact RTSampleNumber analog_packet 72 = Inr (76, \<lparr>sample_number = 8\<rparr>)
   \<and> snd (get_analog_device analog_packet 1 (60, []) g0) = Inr (76, [])"
proof -
  have n: "nat (device_count \<lparr>device_count = 3\<rparr>) = Suc (Suc (Suc 0))" by simp
  have d: "0 < sample_count device2 \<and> channel_count device2 = 0" by (simp add: device2_def)
  from get_analog_items [of "\<lparr>device_count = 3\<rparr>" analog_packet 28 g0 2 2 44 60
      "[\<lparr>samples = [1, 2]\<rparr>, \<lparr>samples = [3, 4]\<rparr>]" device1 "\<lparr>sample_number = 7\<rparr>"]
  have a: "snd (get_analog_loop \<lparr>device_count = 3\<rparr> analog_packet 28 g0)
     = Inr (88, [(device1, \<lparr>sample_number = 7\<rparr>, \<lparr>samples = [1, 2]\<rparr>),
                 (device1, \<lparr>sample_number = 7\<rparr>, \<lparr>samples = [3, 4]\<rparr>)])"
    and b: "length (device_items device1 \<lparr>sample_number = 7\<rparr>
        [\<lparr>samples = [1, 2]\<rparr>, \<lparr>samples = [3, 4]\<rparr>]) = 2"
    unfolding n analog_packet_spec using analog_packet_channels by simp_all
  from get_analog_items [of "\<lparr>device_count = 3\<rparr>" analog_packet 60 g0 0 0 0 0 "[]" device2
      "\<lparr>sample_number = 8\<rparr>" 72 76 1 "[]"]
  have e: "snd (get_analog_device analog_packet 1 (60, []) g0) = Inr (76, [])"
    using analog_packet_device2 analog_packet_sample_number2 d by simp
  from a b e d analog_packet_channels analog_packet_device2 analog_packet_sample_number2
  show ?thesis by simp
qed

section \<open>2D components and the camera filter\<close>

lemma read_append_step:
  "read_append ct buf i (pos, acc) =
     (case get_exact ct buf pos of Inl e \<Rightarrow> Inl e | Inr (p, v) \<Rightarrow> Inr (p, acc @ [v]))"
  by (simp add: read_append_def)

lemma get_2d_markers_camera_step:
  "get_2d_markers_camera buf index camera (pos, acc) =
     (case get_exact RT2DCamera buf pos of
        Inl e \<Rightarrow> Inl e
      | Inr (p1, camera_info) \<Rightarrow>
          if index = None \<or> index = Some (int camera) then
            (case for_range 0 (nat (marker_count camera_info)) (read_append RT2DMarker buf)
                    (p1, []) of
               Inl e \<Rightarrow> Inl e
             | Inr (p2, marker_list) \<Rightarrow> Inr (p2, acc @ [marker_list]))
          else Inr (p1 + 12 * marker_count camera_info, acc))"
  by (simp add: get_2d_markers_camera_def)

lemma read_append_loop:
  "for_range i n (read_append ct buf) (pos, acc) = Inr (pos', out) \<Longrightarrow>
   pos' = pos + int (format_size ct * n) \<and> length out = length acc + n"
proof (induction n arbitrary: i pos acc)
  case 0
  then show ?case by simp
next
  case (Suc n)
  from Suc.prems obtain p1 v where
    g: "get_exact ct buf pos = Inr (p1, v)"
    and r: "for_range (Suc i) n (read_append ct buf) (p1, acc @ [v]) = Inr (pos', out)"
    by (auto simp: read_append_step split: sum.splits)
  from g have "p1 = pos + int (format_size ct)"
    by (auto simp: get_exact_def split: sum.splits)
  with Suc.IH [OF r] show ?case by (simp add: algebra_simps)
qed

lemma camera_filter:
  "for_range i n (get_2d_markers_camera buf None) (pos, acc) = Inr (e, out) \<Longrightarrow>
   marker_counts_nonneg buf n pos \<Longrightarrow>
   \<exists>rest. out = acc @ rest \<and> length rest = n \<and>
     for_range i n (get_2d_markers_camera buf index) (pos, acc')
       = Inr (e, acc' @ pick index i rest)"
proof (induction n arbitrary: i pos acc acc')
  case 0
  then show ?case by simp
next
  case (Suc n)
  from Suc.prems(1) obtain p1 ci p2 ml where
    g: "get_exact RT2DCamera buf pos = Inr (p1, ci)"
    and m: "for_range 0 (nat (marker_count ci)) (read_append RT2DMarker buf) (p1, [])
          = Inr (p2, ml)"
    and r: "for_range (Suc i) n (get_2d_markers_camera buf None) (p2, acc @ [ml])
          = Inr (e, out)"
    by (auto simp: get_2d_markers_camera_step split: sum.splits)
  from Suc.prems(2) g have nn: "0 \<le> marker_count ci"
    and nr: "marker_counts_nonneg buf n (p1 + 12 * marker_count ci)" by simp_all
  from read_append_loop [OF m] nn have p2: "p2 = p1 + 12 * marker_count ci"
    by (simp add: RT2DMarker_def)
  show ?case
  proof (cases "index = None \<or> index = Some (int i)")
    case True
    from Suc.IH [OF r, of "acc' @ [ml]"] nr p2 obtain rest where
      o: "out = (acc @ [ml]) @ rest" and l: "length rest = n"
      and f: "for_range (Suc i) n (get_2d_markers_camera buf index) (p2, acc' @ [ml])
            = Inr (e, (acc' @ [ml]) @ pick index (Suc i) rest)" by auto
    from True g m f have "for_range i (Suc n) (get_2d_markers_camera buf index) (pos, acc')
       = Inr (e, acc' @ pick index i (ml # rest))"
      by (auto simp: get_2d_markers_camera_step)
    with o l show ?thesis by (intro exI [of _ "ml # rest"]) simp
  next
    case False
    from Suc.IH [OF r, of acc'] nr p2 obtain rest where
      o: "out = (acc @ [ml]) @ rest" and l: "length rest = n"
      and f: "for_range (Suc i) n (get_2d_markers_camera buf index) (p2, acc')
            = Inr (e, acc' @ pick index (Suc i) rest)" by auto
    from False g p2 f have "for_range i (Suc n) (get_2d_markers_camera buf index) (pos, acc')
       = Inr (e, acc' @ pick index i (ml # rest))"
      by (auto simp: get_2d_markers_camera_step)
    with o l show ?thesis by (intro exI [of _ "ml # rest"]) simp
  qed
qed

lemmas twod_eval =
  get_2d_markers_loop_def get_2d_markers_camera_step read_append_step get_exact_def
  unpack_from_def RT2DCamera_def RT2DMarker_def field_def le_sint_def for_range_numeral
  twod_header_def

lemma twod_packet_full:
  "get_2d_markers_loop twod_packet (twod_header 3) 32 None =
     Inr (83, [ [\<lparr>m2d_x = 1, m2d_y = 2, m2d_d_x = 3, m2d_d_y = 4\<rparr>,
                \<lparr>m2d_x = 5, m2d_y = 6, m2d_d_x = 7, m2d_d_y = 8\<rparr>], [], [marker3]])"
  by (simp add: twod_eval twod_packet_def marker3_def)

lemma twod_packet_nonneg: "marker_counts_nonneg twod_packet 3 32"
  by (simp add: numeral_3_eq_3 get_exact_def unpack_from_def RT2DCamera_def field_def
      le_sint_def twod_packet_def)

lemma twod_packet_header: "get_exact RT2DComponent twod_packet 24 = Inr (32, twod_header 3)"
  by (simp add: get_exact_def unpack_from_def RT2DComponent_def field_def le_sint_def
      twod_packet_def twod_header_def)

lemma twod_packet'_header: "get_exact RT2DComponent twod_packet' 24 = Inr (32, twod_header 3)"
  by (simp add: get_exact_def unpack_from_def RT2DComponent_def field_def le_sint_def
      twod_packet'_def twod_header_def)

lemma twod_packet_camera0:
  "get_exact RT2DCamera twod_packet 32 = Inr (37, \<lparr>marker_count = 2, status_flag = [16]\<rparr>)"
  by (simp add: get_exact_def unpack_from_def RT2DCamera_def field_def le_sint_def
      twod_packet_def)

lemma twod_packet_camera1:
  "get_exact RT2DCamera twod_packet 61 = Inr (66, \<lparr>marker_count = 0, status_flag = [17]\<rparr>)"
  by (simp add: get_exact_def unpack_from_def RT2DCamera_def field_def le_sint_def
      twod_packet_def)

lemma twod_packet_camera2:
  "get_exact RT2DCamera twod_packet 66 = Inr (71, \<lparr>marker_count = 1, status_flag = [18]\<rparr>)"
  by (simp add: get_exact_def unpack_from_def RT2DCamera_def field_def le_sint_def
      twod_packet_def)

lemma twod_packet'_camera2:
  "get_exact RT2DCamera twod_packet' 66 = Inr (71, \<lparr>marker_count = 1, status_flag = [19]\<rparr>)"
  by (simp add: get_exact_def unpack_from_def RT2DCamera_def field_def le_sint_def
      twod_packet'_def)

lemma twod_packet_marker3: "get_exact RT2DMarker twod_packet 71 = Inr (83, marker3)"
  by (simp add: get_exact_def unpack_from_def RT2DMarker_def field_def le_sint_def
      twod_packet_def marker3_def)

lemma twod_packet'_filtered:
  "get_2d_markers_loop twod_packet' (twod_header 3) 32 (Some 2) = Inr (83, [ [marker3]])"
  by (simp add: twod_eval twod_packet'_def marker3_def)

text \<open>
  C6, as stated, fails: with two cameras of which the first announces \<open>marker_count = -1\<close>,
  the full decode ends at offset 42, and the decode filtered to camera 1, which steps over
  camera 0 by \<open>12 * (-1)\<close> bytes, ends at offset 30.
\<close>

theorem filtered_offset_differs_on_negative_count:
  "get_2d_markers_loop negative_count_packet (twod_header 2) 32 None = Inr (42, [ [], []])
   \<and> get_2d_markers_loop negative_count_packet (twod_header 2) 32 (Some 1) = Inr (30, [ []])"
  by (simp add: twod_eval negative_count_packet_def)

text \<open>
  C6, amended. When the full decode of a 2D (or 2D-linearized) component succeeds and every
  camera record it meets has a non-negative \<open>marker_count\<close>, the decode filtered to any
  requested index succeeds as well, ends at the same offset, and returns the marker lists
  of the requested camera only.
\<close>

theorem filtered_offset_equals_full:
  assumes "get_2d_markers_loop buf component_info pos None = Inr (end_pos, full)"
    and "marker_counts_nonneg buf (camera_count component_info) pos"
  shows "get_2d_markers_loop buf component_info pos index = Inr (end_pos, pick index 0 full)"
proof -
  from camera_filter [OF assms [unfolded get_2d_markers_loop_def], of index "[]"]
  show ?thesis by (auto simp: get_2d_markers_loop_def)
qed

theorem filtered_offset_equals_full_witness:
  "get_2d_markers_loop twod_packet (twod_header 3) 32 None =
     Inr (83, [ [\<lparr>m2d_x = 1, m2d_y = 2, m2d_d_x = 3, m2d_d_y = 4\<rparr>,
                \<lparr>m2d_x = 5, m2d_y = 6, m2d_d_x = 7, m2d_d_y = 8\<rparr>], [], [marker3]])
   \<and> marker_counts_nonneg twod_packet (camera_count (twod_header 3)) 32
   \<and> get_2d_markers_loop twod_packet (twod_header 3) 32 (Some 2) = Inr (83, [ [marker3]])"
proof -
  have n: "marker_counts_nonneg twod_packet (camera_count (twod_header 3)) 32"
    using twod_packet_nonneg by (simp add: twod_header_def)
  from filtered_offset_equals_full [OF twod_packet_full n, of "Some 2"]
  have "get_2d_markers_loop twod_packet (twod_header 3) 32 (Some 2) = Inr (83, [ [marker3]])"
    by (simp add: numeral_2_eq_2)
  with twod_packet_full n show ?thesis by simp
qed

text \<open>
  C7, as stated, fails: the result of the filtered request holds the component header and
  the marker list of camera 2 and nothing else. Two packets that differ only in camera 2's
  status flag (18 and 19) give the same result.
\<close>

theorem filtered_result_has_no_status_flag:
  "get_2d_markers twod_self (Some 2) g0 = (g0, Inr (Some (twod_header 3, [ [marker3]])))
   \<and> get_2d_markers twod_self' (Some 2) g0 = (g0, Inr (Some (twod_header 3, [ [marker3]])))
   \<and> get_exact RT2DCamera twod_packet 66 = Inr (71, \<lparr>marker_count = 1, status_flag = [18]\<rparr>)
   \<and> get_exact RT2DCamera twod_packet' 66 = Inr (71, \<lparr>marker_count = 1, status_flag = [19]\<rparr>)"
proof -
  have a: "get_2d_markers_loop twod_packet (twod_header 3) 32 (Some 2) = Inr (83, [ [marker3]])"
    by (simp add: twod_eval twod_packet_def marker3_def)
  have "get_2d_markers twod_self (Some 2) g0 = (g0, Inr (Some (twod_header 3, [ [marker3]])))"
    by (simp add: get_2d_markers_def ComponentGetter_def unchanged_def twod_self_def
        QRTPacket_get_2d_markers_def return_components_def twod_packet_header a)
  moreover
  have "get_2d_markers twod_self' (Some 2) g0 = (g0, Inr (Some (twod_header 3, [ [marker3]])))"
    by (simp add: get_2d_markers_def ComponentGetter_def unchanged_def twod_self'_def
        QRTPacket_get_2d_markers_def return_components_def twod_packet'_header
        twod_packet'_filtered)
  ultimately show ?thesis using twod_packet_camera2 twod_packet'_camera2 by simp
qed

text \<open>
  C7, amended. For a 2D component with three cameras whose marker counts are 2, 0 and 1,
  requesting camera index 2 yields the component header together with a list whose only
  element is camera 2's marker list; the markers of cameras 0 and 1 are stepped over
  without being read, and no status flag is part of the result.
\<close>

theorem filtered_third_camera:
  assumes "components self Component2d = Some p"
    and "get_exact RT2DComponent (data self) p = Inr (p0, component_info)"
    and "camera_count component_info = 3"
    and "get_exact RT2DCamera (data self) p0 = Inr (p1, camera0)"
    and "marker_count camera0 = 2"
    and "get_exact RT2DCamera (data self) (p1 + 24) = Inr (p2, camera1)"
    and "marker_count camera1 = 0"
    and "get_exact RT2DCamera (data self) p2 = Inr (p3, camera2)"
    and "marker_count camera2 = 1"
    and "get_exact RT2DMarker (data self) p3 = Inr (p4, m)"
  shows "get_2d_markers self (Some 2) g = (g, Inr (Some (component_info, [ [m]])))"
proof -
  have "get_2d_markers_loop (data self) component_info p0 (Some 2) = Inr (p4, [ [m]])"
    using assms(3-10)
    by (simp add: get_2d_markers_loop_def get_2d_markers_camera_step read_append_step
        for_range_numeral)
  with assms(1,2) show ?thesis
    by (simp add: get_2d_markers_def ComponentGetter_def unchanged_def
        QRTPacket_get_2d_markers_def return_components_def)
qed

theorem filtered_third_camera_witness:
  "components twod_self Component2d = Some 24
   \<and> get_exact RT2DComponent (data twod_self) 24 = Inr (32, twod_header 3)
   \<and> get_exact RT2DCamera (data twod_self) 32 = Inr (37, \<lparr>marker_count = 2, status_flag = [16]\<rparr>)
   \<and> get_exact RT2DCamera (data twod_self) 61 = Inr (66, \<lparr>marker_count = 0, status_flag = [17]\<rparr>)
   \<and> get_exact RT2DCamera (data twod_self) 66 = Inr (71, \<lparr>marker_count = 1, status_flag = [18]\<rparr>)
   \<and> get_exact RT2DMarker (data twod_self) 71 = Inr (83, marker3)
   \<and> get_2d_markers twod_self (Some 2) g0 = (g0, Inr (Some (twod_header 3, [ [marker3]])))"
proof -
  have c: "components twod_self Component2d = Some 24" by (simp add: twod_self_def)
  have d: "data twod_self = twod_packet" by (simp add: twod_self_def)
  have h: "get_exact RT2DComponent (data twod_self) 24 = Inr (32, twod_header 3)"
    unfolding d by (rule twod_packet_header)
  have n: "camera_count (twod_header 3) = 3" by (simp add: twod_header_def)
  have c0: "get_exact RT2DCamera (data twod_self) 32
      = Inr (37, \<lparr>marker_count = 2, status_flag = [16]\<rparr>)"
    unfolding d by (rule twod_packet_camera0)
  have c1: "get_exact RT2DCamera (data twod_self) (37 + 24)
      = Inr (66, \<lparr>marker_count = 0, status_flag = [17]\<rparr>)"
    unfolding d using twod_packet_camera1 by simp
  have c2: "get_exact RT2DCamera (data twod_self) 66
      = Inr (71, \<lparr>marker_count = 1, status_flag = [18]\<rparr>)"
    unfolding d by (rule twod_packet_camera2)
  have m: "get_exact RT2DMarker (data twod_self) 71 = Inr (83, marker3)"
    unfolding d by (rule twod_packet_marker3)
  from filtered_third_camera [OF c h n c0 _ c1 _ c2 _ m, of g0]
  have "get_2d_markers twod_self (Some 2) g0
      = (g0, Inr (Some (twod_header 3, [ [marker3]])))" by simp
  with c h c0 c1 c2 m show ?thesis by simp
qed

section \<open>The decorator and the shared format descriptors\<close>

lemmas accessor_defs =
  get_analog_def get_analog_single_def get_force_def get_force_single_def get_6d_def
  get_6d_residual_def get_6d_euler_def get_6d_euler_residual_def get_image_def
  get_3d_markers_def get_3d_markers_residual_def get_3d_markers_no_label_def
  get_3d_markers_no_label_residual_def get_2d_markers_def get_2d_markers_linearized_def
  get_skeletons_def



lemma ComponentGetter_snd:
  assumes "\<And>info buf pos. snd (f info buf pos g) = snd (f info buf pos g')"
  shows "snd (ComponentGetter k base f self g) = snd (ComponentGetter k base f self g')"
proof (cases "components self k")
  case None
  then show ?thesis by (simp add: ComponentGetter_def)
next
  case (Some p)
  show ?thesis
  proof (cases "get_exact base (data self) p")
    case (Inl e)
    with Some show ?thesis by (simp add: ComponentGetter_def)
  next
    case (Inr r)
    obtain p' info where r: "r = (p', info)" by (cases r)
    obtain g1 r1 where f1: "f info (data self) p' g = (g1, r1)"
      by (cases "f info (data self) p' g")
    obtain g2 r2 where f2: "f info (data self) p' g' = (g2, r2)"
      by (cases "f info (data self) p' g'")
    from assms [of info "data self" p'] f1 f2 have "r2 = r1" by simp
    with Some Inr r f1 f2 show ?thesis
      by (cases r1) (simp_all add: ComponentGetter_def)
  qed
qed

lemma for_range_g_snd:
  assumes "\<And>i s g. snd (body i s g) = pbody i s"
  shows "snd (for_range_g i n body s g) = for_range i n pbody s"
proof (induction n arbitrary: i s g)
  case 0
  then show ?case by simp
next
  case (Suc n)
  obtain g1 r1 where b: "body i s g = (g1, r1)" by (cases "body i s g")
  with assms [of i s g] have p: "pbody i s = r1" by simp
  show ?case
  proof (cases r1)
    case (Inl e)
    with b p show ?thesis by simp
  next
    case (Inr s')
    with b p Suc.IH [of "Suc i" s' g1] show ?thesis by simp
  qed
qed

lemma get_analog_single_device_snd:
  "snd (get_analog_single_device buf i s g) = snd (get_analog_single_device buf i s g0)"
  by (cases s)
    (simp add: get_analog_single_device_def Let_def split: sum.splits prod.splits)

lemma get_analog_single_loop_snd:
  "snd (get_analog_single_loop info buf pos g)
     = for_range 0 (nat (device_count info))
         (\<lambda>i s. snd (get_analog_single_device buf i s g0)) (pos, [])"
  unfolding get_analog_single_loop_def
  by (rule for_range_g_snd) (rule get_analog_single_device_snd)

lemma get_analog_function_snd:
  "snd (get_analog_function info buf pos g) = snd (get_analog_function info buf pos g')"
proof -
  have "snd (get_analog_loop info buf pos g) = snd (get_analog_loop info buf pos g')"
    unfolding get_analog_loop_def analog_loop_spec ..
  then show ?thesis
    by (cases "get_analog_loop info buf pos g"; cases "get_analog_loop info buf pos g'")
      (simp add: get_analog_function_def)
qed

lemma get_analog_single_function_snd:
  "snd (get_analog_single_function info buf pos g)
     = snd (get_analog_single_function info buf pos g')"
proof -
  have "snd (get_analog_single_loop info buf pos g)
      = snd (get_analog_single_loop info buf pos g')"
    unfolding get_analog_single_loop_snd ..
  then show ?thesis
    by (cases "get_analog_single_loop info buf pos g";
        cases "get_analog_single_loop info buf pos g'")
      (simp add: get_analog_single_function_def)
qed

lemma unchanged_snd: "snd (unchanged f info buf pos g) = snd (unchanged f info buf pos g')"
  by (simp add: unchanged_def)

lemma answer_with_snd:
  "snd r = snd r' \<Longrightarrow> snd (answer_with wrap r) = snd (answer_with wrap r')"
  by (cases r; cases r') (auto simp: answer_with_def split: sum.splits)

lemma call_snd: "snd (call a self g) = snd (call a self g')"
  by (cases a)
    (simp_all add: accessor_defs,
     (rule answer_with_snd, rule ComponentGetter_snd,
      (rule unchanged_snd | rule get_analog_function_snd | rule get_analog_single_function_snd))+)

lemma run_calls_snd: "snd (run_calls calls self g) = snd (run_calls calls self g')"
proof (induction calls arbitrary: g g')
  case Nil
  then show ?case by simp
next
  case (Cons a calls)
  obtain g1 r1 where c1: "call a self g = (g1, r1)" by (cases "call a self g")
  obtain g2 r2 where c2: "call a self g' = (g2, r2)" by (cases "call a self g'")
  from call_snd [of a self g g'] c1 c2 have r: "r1 = r2" by simp
  from Cons.IH [of g1 g2] c1 c2 r show ?case
    by (cases "run_calls calls self g1"; cases "run_calls calls self g2") simp
qed

lemma decode_snd: "snd (decode buf calls g) = snd (decode buf calls g')"
proof (cases "QRTPacket_init buf")
  case (Inl e)
  then show ?thesis by (simp add: decode_def)
next
  case (Inr self)
  with run_calls_snd [of calls self g g'] show ?thesis
    by (cases "run_calls calls self g"; cases "run_calls calls self g'")
      (simp add: decode_def)
qed






text \<open>
  C9. The results of constructing a packet from a buffer and calling any sequence of
  accessors do not depend on the format descriptors found on entry, whatever earlier decode
  calls have bound them to: every accessor's result is a function of the packet and the
  accessor's arguments alone.
\<close>

theorem decode_deterministic:
  "snd (decode buf calls g) = snd (decode buf calls g')
   \<and> snd (decode buf calls (fst (decode buf' calls' g))) = snd (decode buf calls g)
   \<and> snd (call a self g) = snd (call a self g')"
  using decode_snd [of buf calls g g'] decode_snd [of buf calls "fst (decode buf' calls' g)" g]
    call_snd [of a self g g']
  by simp

section \<open>Truncated packets\<close>

lemma get_exact_error: "get_exact ct buf pos = Inl e \<Longrightarrow> e = StructError"
  by (auto simp: get_exact_def unpack_from_def split: sum.splits if_splits)

lemma get_exact_inside:
  "get_exact ct buf pos = Inr (p, v) \<Longrightarrow> 0 \<le> pos \<Longrightarrow>
   p = pos + int (format_size ct) \<and> p \<le> int (length buf)"
  by (auto simp: get_exact_def unpack_from_def split: sum.splits if_splits)

lemma unpack_from_extend:
  "unpack_from sz buf pos = Inr bs \<Longrightarrow> 0 \<le> pos \<Longrightarrow> unpack_from sz (buf @ ext) pos = Inr bs"
  by (auto simp: unpack_from_def split: if_splits)

lemma get_exact_extend:
  "get_exact ct buf pos = Inr (p, v) \<Longrightarrow> 0 \<le> pos \<Longrightarrow> get_exact ct (buf @ ext) pos = Inr (p, v)"
  by (auto simp: get_exact_def unpack_from_extend split: sum.splits)

lemma get_tuple_eq: "get_tuple ct buf pos = get_exact ct buf pos"
  by (simp add: get_tuple_def get_exact_def)

lemma safe_stepI:
  assumes "\<And>buf pos c e. 0 \<le> pos \<Longrightarrow> f buf (pos, c) = Inl e \<Longrightarrow> e = StructError"
    and "\<And>buf pos c pos' c'. 0 \<le> pos \<Longrightarrow> f buf (pos, c) = Inr (pos', c') \<Longrightarrow>
           pos \<le> pos' \<and> (pos' = pos \<or> pos' \<le> int (length buf))"
    and "\<And>buf pos c pos' c' ext. 0 \<le> pos \<Longrightarrow> f buf (pos, c) = Inr (pos', c') \<Longrightarrow>
           f (buf @ ext) (pos, c) = Inr (pos', c')"
  shows "safe_step f"
  unfolding safe_step_def
proof (intro allI impI)
  fix buf pos c
  assume p: "0 \<le> (pos::int)"
  show "case f buf (pos, c) of
       Inl e \<Rightarrow> e = StructError
     | Inr (pos', c') \<Rightarrow>
         pos \<le> pos' \<and> (pos' = pos \<or> pos' \<le> int (length buf))
         \<and> (\<forall>ext. f (buf @ ext) (pos, c) = Inr (pos', c'))"
  proof (cases "f buf (pos, c)")
    case (Inl e)
    with assms(1) [OF p] show ?thesis by simp
  next
    case (Inr r)
    obtain pos' c' where r: "r = (pos', c')" by (cases r)
    with Inr assms(2) [OF p, of buf c pos' c'] assms(3) [OF p, of buf c pos' c']
    show ?thesis by simp
  qed
qed

lemma safe_step_error:
  "safe_step f \<Longrightarrow> 0 \<le> pos \<Longrightarrow> f buf (pos, c) = Inl e \<Longrightarrow> e = StructError"
  unfolding safe_step_def by (erule allE [of _ buf], erule allE [of _ pos], erule allE [of _ c]) simp

lemma safe_step_inside:
  "safe_step f \<Longrightarrow> 0 \<le> pos \<Longrightarrow> f buf (pos, c) = Inr (pos', c') \<Longrightarrow>
   pos \<le> pos' \<and> (pos' = pos \<or> pos' \<le> int (length buf))"
  unfolding safe_step_def by (erule allE [of _ buf], erule allE [of _ pos], erule allE [of _ c]) simp

lemma safe_step_extend:
  "safe_step f \<Longrightarrow> 0 \<le> pos \<Longrightarrow> f buf (pos, c) = Inr (pos', c') \<Longrightarrow>
   f (buf @ ext) (pos, c) = Inr (pos', c')"
  unfolding safe_step_def by (erule allE [of _ buf], erule allE [of _ pos], erule allE [of _ c]) simp

lemma safe_reading: "safe_step (reading ct k)"
proof (rule safe_stepI)
  fix buf pos c e
  assume "0 \<le> (pos::int)" "reading ct k buf (pos, c) = Inl e"
  then show "e = StructError"
    by (auto simp: reading_def split: sum.splits dest: get_exact_error)
next
  fix buf pos c pos' c'
  assume "0 \<le> (pos::int)" "reading ct k buf (pos, c) = Inr (pos', c')"
  then show "pos \<le> pos' \<and> (pos' = pos \<or> pos' \<le> int (length buf))"
    by (auto simp: reading_def split: sum.splits dest: get_exact_inside)
next
  fix buf pos c pos' c' ext
  assume "0 \<le> (pos::int)" "reading ct k buf (pos, c) = Inr (pos', c')"
  then show "reading ct k (buf @ ext) (pos, c) = Inr (pos', c')"
    by (auto simp: reading_def get_exact_extend split: sum.splits)
qed

lemma safe_guarding:
  assumes "\<And>c e. chk c = Inl e \<Longrightarrow> e = StructError"
  shows "safe_step (guarding chk)"
  by (rule safe_stepI) (auto simp: guarding_def split: sum.splits dest: assms)

lemma safe_and_then:
  assumes f: "safe_step f" and h: "safe_step h"
  shows "safe_step (and_then f h)"
proof (rule safe_stepI)
  fix buf pos c e
  assume p: "0 \<le> (pos::int)" and a: "and_then f h buf (pos, c) = Inl e"
  show "e = StructError"
  proof (cases "f buf (pos, c)")
    case (Inl e')
    with a safe_step_error [OF f p Inl] show ?thesis by (simp add: and_then_def)
  next
    case (Inr t)
    obtain p1 c1 where t: "t = (p1, c1)" by (cases t)
    from safe_step_inside [OF f p Inr [unfolded t]] p have "0 \<le> p1" by simp
    from safe_step_error [OF h this, of buf c1 e] a Inr t show ?thesis
      by (simp add: and_then_def)
  qed
next
  fix buf pos c pos' c'
  assume p: "0 \<le> (pos::int)" and a: "and_then f h buf (pos, c) = Inr (pos', c')"
  from a obtain p1 c1 where f1: "f buf (pos, c) = Inr (p1, c1)"
    and h1: "h buf (p1, c1) = Inr (pos', c')"
    by (auto simp: and_then_def split: sum.splits)
  from safe_step_inside [OF f p f1] have i1: "pos \<le> p1" "p1 = pos \<or> p1 \<le> int (length buf)"
    by simp_all
  with p have "0 \<le> p1" by simp
  from safe_step_inside [OF h this h1] i1
  show "pos \<le> pos' \<and> (pos' = pos \<or> pos' \<le> int (length buf))" by auto
next
  fix buf pos c pos' c' ext
  assume p: "0 \<le> (pos::int)" and a: "and_then f h buf (pos, c) = Inr (pos', c')"
  from a obtain p1 c1 where f1: "f buf (pos, c) = Inr (p1, c1)"
    and h1: "h buf (p1, c1) = Inr (pos', c')"
    by (auto simp: and_then_def split: sum.splits)
  from safe_step_inside [OF f p f1] p have "0 \<le> p1" by simp
  from safe_step_extend [OF f p f1, of ext] safe_step_extend [OF h this h1, of ext]
  show "and_then f h (buf @ ext) (pos, c) = Inr (pos', c')"
    by (simp add: and_then_def)
qed

lemma safe_for_range:
  assumes "\<And>i. safe_step (\<lambda>buf. body buf i)"
  shows "safe_step (\<lambda>buf. for_range i n (body buf))"
proof (induction n arbitrary: i)
  case 0
  show ?case by (rule safe_stepI) simp_all
next
  case (Suc n)
  have e: "(\<lambda>buf. for_range i (Suc n) (body buf))
      = and_then (\<lambda>buf. body buf i) (\<lambda>buf. for_range (Suc i) n (body buf))"
    by (intro ext) (simp add: and_then_def)
  show ?case unfolding e by (rule safe_and_then [OF assms [of i] Suc.IH [of "Suc i"]])
qed

lemma safe_looping:
  assumes "\<And>c i. safe_step (\<lambda>buf. body c buf i)"
  shows "safe_step (looping n body init k)"
proof (rule safe_stepI)
  fix buf pos c e
  assume p: "0 \<le> (pos::int)" and a: "looping n body init k buf (pos, c) = Inl e"
  have s: "safe_step (\<lambda>buf. for_range 0 (n c) (body c buf))"
    by (rule safe_for_range) (rule assms)
  from a have "for_range 0 (n c) (body c buf) (pos, init c) = Inl e"
    by (auto simp: looping_def split: sum.splits)
  from safe_step_error [OF s p this] show "e = StructError" .
next
  fix buf pos c pos' c'
  assume p: "0 \<le> (pos::int)" and a: "looping n body init k buf (pos, c) = Inr (pos', c')"
  have s: "safe_step (\<lambda>buf. for_range 0 (n c) (body c buf))"
    by (rule safe_for_range) (rule assms)
  from a obtain r where "for_range 0 (n c) (body c buf) (pos, init c) = Inr (pos', r)"
    by (auto simp: looping_def split: sum.splits)
  from safe_step_inside [OF s p this]
  show "pos \<le> pos' \<and> (pos' = pos \<or> pos' \<le> int (length buf))" .
next
  fix buf pos c pos' c' ext
  assume p: "0 \<le> (pos::int)" and a: "looping n body init k buf (pos, c) = Inr (pos', c')"
  have s: "safe_step (\<lambda>buf. for_range 0 (n c) (body c buf))"
    by (rule safe_for_range) (rule assms)
  from a obtain r where l: "for_range 0 (n c) (body c buf) (pos, init c) = Inr (pos', r)"
    and c': "c' = k c r"
    by (auto simp: looping_def split: sum.splits)
  from safe_step_extend [OF s p l, of ext] c'
  show "looping n body init k (buf @ ext) (pos, c) = Inr (pos', c')"
    by (simp add: looping_def)
qed

lemma safe_if:
  assumes "safe_step f" and "safe_step h"
  shows "safe_step (\<lambda>buf s. if cond (snd s) then f buf s else h buf s)"
proof (rule safe_stepI)
  fix buf pos c e
  assume "0 \<le> (pos::int)" "(if cond (snd (pos, c)) then f buf (pos, c) else h buf (pos, c)) = Inl e"
  then show "e = StructError"
    using safe_step_error [OF assms(1), of pos buf c e] safe_step_error [OF assms(2), of pos buf c e]
    by (simp split: if_splits)
next
  fix buf pos c pos' c'
  assume "0 \<le> (pos::int)"
    "(if cond (snd (pos, c)) then f buf (pos, c) else h buf (pos, c)) = Inr (pos', c')"
  then show "pos \<le> pos' \<and> (pos' = pos \<or> pos' \<le> int (length buf))"
    using safe_step_inside [OF assms(1), of pos buf c pos' c']
      safe_step_inside [OF assms(2), of pos buf c pos' c']
    by (simp split: if_splits)
next
  fix buf pos c pos' c' ext
  assume "0 \<le> (pos::int)"
    "(if cond (snd (pos, c)) then f buf (pos, c) else h buf (pos, c)) = Inr (pos', c')"
  then show "(if cond (snd (pos, c)) then f (buf @ ext) (pos, c) else h (buf @ ext) (pos, c))
      = Inr (pos', c')"
    using safe_step_extend [OF assms(1), of pos buf c pos' c' ext]
      safe_step_extend [OF assms(2), of pos buf c pos' c' ext]
    by (simp split: if_splits)
qed

lemma read_append_safe: "safe_step (\<lambda>buf. read_append ct buf i)"
proof -
  have "(\<lambda>buf. read_append ct buf i) = reading (\<lambda>_. ct) (\<lambda>c v. c @ [v])"
    by (intro ext) (simp add: read_append_def reading_def split: prod.splits)
  then show ?thesis by (simp add: safe_reading)
qed

lemma get_2d_markers_camera_safe: "safe_step (\<lambda>buf. get_2d_markers_camera buf None i)"
proof -
  have "(\<lambda>buf. get_2d_markers_camera buf None i) =
      and_then (reading (\<lambda>_. RT2DCamera) (\<lambda>c v. (c, v)))
        (looping (\<lambda>cv. nat (marker_count (snd cv))) (\<lambda>_ buf. read_append RT2DMarker buf)
           (\<lambda>_. []) (\<lambda>cv ml. fst cv @ [ml]))"
    by (intro ext)
      (simp add: get_2d_markers_camera_def reading_def and_then_def looping_def
        split: prod.splits sum.splits)
  then show ?thesis
    by (simp add: safe_and_then safe_reading safe_looping read_append_safe)
qed

lemma get_force_plate_safe: "safe_step (\<lambda>buf. get_force_plate buf i)"
proof -
  have "(\<lambda>buf. get_force_plate buf i) =
      and_then (reading (\<lambda>_. RTForcePlate) (\<lambda>c v. (c, v)))
        (looping (\<lambda>cv. nat (force_count (snd cv))) (\<lambda>_ buf. read_append RTForce buf)
           (\<lambda>_. []) (\<lambda>cv fl. fst cv @ [(snd cv, fl)]))"
    by (intro ext)
      (simp add: get_force_plate_def reading_def and_then_def looping_def
        split: prod.splits sum.splits)
  then show ?thesis
    by (simp add: safe_and_then safe_reading safe_looping read_append_safe)
qed

lemma get_force_single_plate_safe: "safe_step (\<lambda>buf. get_force_single_plate buf i)"
proof -
  have "(\<lambda>buf. get_force_single_plate buf i) =
      and_then (reading (\<lambda>_. RTForcePlateSingle) (\<lambda>c v. (c, v)))
        (reading (\<lambda>_. RTForce) (\<lambda>cv f. fst cv @ [(snd cv, f)]))"
    by (intro ext)
      (simp add: get_force_single_plate_def reading_def and_then_def
        split: prod.splits sum.splits)
  then show ?thesis by (simp add: safe_and_then safe_reading)
qed

lemma get_6d_body_safe: "safe_step (\<lambda>buf. get_6d_body buf i)"
proof -
  have "(\<lambda>buf. get_6d_body buf i) =
      and_then (reading (\<lambda>_. RT6DBodyPosition) (\<lambda>c v. (c, v)))
        (reading (\<lambda>_. RT6DBodyRotation) (\<lambda>cv r. fst cv @ [(snd cv, r)]))"
    by (intro ext)
      (simp add: get_6d_body_def reading_def and_then_def get_tuple_eq
        split: prod.splits sum.splits)
  then show ?thesis by (simp add: safe_and_then safe_reading)
qed

lemma get_6d_residual_body_safe: "safe_step (\<lambda>buf. get_6d_residual_body buf i)"
proof -
  have "(\<lambda>buf. get_6d_residual_body buf i) =
      and_then (reading (\<lambda>_. RT6DBodyPosition) (\<lambda>c v. (c, v)))
        (and_then (reading (\<lambda>_. RT6DBodyRotation) (\<lambda>cv r. (cv, r)))
           (reading (\<lambda>_. RT6DBodyResidual)
              (\<lambda>cvr res. fst (fst cvr) @ [(snd (fst cvr), snd cvr, res)])))"
    by (intro ext)
      (simp add: get_6d_residual_body_def reading_def and_then_def get_tuple_eq
        split: prod.splits sum.splits)
  then show ?thesis by (simp add: safe_and_then safe_reading)
qed

lemma get_6d_euler_body_safe: "safe_step (\<lambda>buf. get_6d_euler_body buf i)"
proof -
  have "(\<lambda>buf. get_6d_euler_body buf i) =
      and_then (reading (\<lambda>_. RT6DBodyPosition) (\<lambda>c v. (c, v)))
        (reading (\<lambda>_. RT6DBodyEuler) (\<lambda>cv r. fst cv @ [(snd cv, r)]))"
    by (intro ext)
      (simp add: get_6d_euler_body_def reading_def and_then_def
        split: prod.splits sum.splits)
  then show ?thesis by (simp add: safe_and_then safe_reading)
qed

lemma get_6d_euler_residual_body_safe: "safe_step (\<lambda>buf. get_6d_euler_residual_body buf i)"
proof -
  have "(\<lambda>buf. get_6d_euler_residual_body buf i) =
      and_then (reading (\<lambda>_. RT6DBodyPosition) (\<lambda>c v. (c, v)))
        (and_then (reading (\<lambda>_. RT6DBodyEuler) (\<lambda>cv r. (cv, r)))
           (reading (\<lambda>_. RT6DBodyResidual)
              (\<lambda>cvr res. fst (fst cvr) @ [(snd (fst cvr), snd cvr, res)])))"
    by (intro ext)
      (simp add: get_6d_euler_residual_body_def reading_def and_then_def
        split: prod.splits sum.splits)
  then show ?thesis by (simp add: safe_and_then safe_reading)
qed

lemma get_skeletons_joint_safe: "safe_step (\<lambda>buf. get_skeletons_joint buf i)"
proof -
  have "(\<lambda>buf. get_skeletons_joint buf i) =
      and_then (reading (\<lambda>_. RTJointId) (\<lambda>c v. (c, v)))
        (and_then (reading (\<lambda>_. RTJointPosition) (\<lambda>cv r. (cv, r)))
           (reading (\<lambda>_. RTJointRotation)
              (\<lambda>cvr rot. fst (fst cvr) @ [(joint_id (snd (fst cvr)), snd cvr, rot)])))"
    by (intro ext)
      (simp add: get_skeletons_joint_def reading_def and_then_def
        split: prod.splits sum.splits)
  then show ?thesis by (simp add: safe_and_then safe_reading)
qed

lemma get_skeletons_skeleton_safe: "safe_step (\<lambda>buf. get_skeletons_skeleton buf i)"
proof -
  have "(\<lambda>buf. get_skeletons_skeleton buf i) =
      and_then (reading (\<lambda>_. RTJointCount) (\<lambda>c v. (c, v)))
        (looping (\<lambda>cv. nat (joint_count (snd cv))) (\<lambda>_ buf. get_skeletons_joint buf)
           (\<lambda>_. []) (\<lambda>cv joints. fst cv @ [joints]))"
    by (intro ext)
      (simp add: get_skeletons_skeleton_def reading_def and_then_def looping_def
        split: prod.splits sum.splits)
  then show ?thesis
    by (simp add: safe_and_then safe_reading safe_looping get_skeletons_joint_safe)
qed

lemma get_analog_channel_safe:
  assumes "RTAnalogChannel_format g = Some n"
  shows "safe_step (\<lambda>buf. get_analog_channel g buf device sn i)"
proof -
  have "(\<lambda>buf. get_analog_channel g buf device sn i) =
      reading (\<lambda>_. RTAnalogChannel n) (\<lambda>c ch. c @ [(device, sn, ch)])"
    using assms
    by (intro ext)
      (simp add: get_analog_channel_def reading_def get_tuple_eq split: prod.splits sum.splits)
  then show ?thesis by (simp add: safe_reading)
qed

lemma get_analog_device_safe: "safe_step (\<lambda>buf s. snd (get_analog_device buf i s g0))"
proof -
  have "(\<lambda>buf s. snd (get_analog_device buf i s g0)) =
      and_then (reading (\<lambda>_. RTAnalogDevice) (\<lambda>c d. (c, d)))
        (\<lambda>buf s. if 0 < sample_count (snd (snd s)) then
             and_then (reading (\<lambda>_. RTSampleNumber) (\<lambda>cd sn. (cd, sn)))
               (looping (\<lambda>cds. nat (channel_count (snd (fst cds))))
                  (\<lambda>cds buf. get_analog_channel
                     (g0\<lparr>RTAnalogChannel_format := Some (nat (sample_count (snd (fst cds))))\<rparr>)
                     buf (snd (fst cds)) (snd cds))
                  (\<lambda>cds. fst (fst cds)) (\<lambda>cds r. r)) buf s
           else guarding (\<lambda>cd. Inr (fst cd)) buf s)"
    by (intro ext)
      (simp add: get_analog_device_def reading_def and_then_def looping_def guarding_def
        Struct_floats_def Let_def split: prod.splits sum.splits)
  moreover have "safe_step (and_then (reading (\<lambda>_. RTAnalogDevice) (\<lambda>c d. (c, d)))
        (\<lambda>buf s. if 0 < sample_count (snd (snd s)) then
             and_then (reading (\<lambda>_. RTSampleNumber) (\<lambda>cd sn. (cd, sn)))
               (looping (\<lambda>cds. nat (channel_count (snd (fst cds))))
                  (\<lambda>cds buf. get_analog_channel
                     (g0\<lparr>RTAnalogChannel_format := Some (nat (sample_count (snd (fst cds))))\<rparr>)
                     buf (snd (fst cds)) (snd cds))
                  (\<lambda>cds. fst (fst cds)) (\<lambda>cds r. r)) buf s
           else guarding (\<lambda>cd. Inr (fst cd)) buf s))"
    by (intro safe_and_then safe_reading safe_looping
        safe_if [where cond = "\<lambda>cd. 0 < sample_count (snd cd)"] safe_guarding
        get_analog_channel_safe) simp_all
  ultimately show ?thesis by simp
qed

lemma get_analog_single_device_safe:
  "safe_step (\<lambda>buf s. snd (get_analog_single_device buf i s g0))"
proof -
  have "(\<lambda>buf s. snd (get_analog_single_device buf i s g0)) =
      and_then (reading (\<lambda>_. RTAnalogDeviceSingle) (\<lambda>c d. (c, d)))
        (and_then
           (guarding (\<lambda>cd. case Struct_floats (ds_channel_count (snd cd)) of
                               Inl e \<Rightarrow> Inl e | Inr n \<Rightarrow> Inr (cd, n)))
           (reading (\<lambda>cdn. RTAnalogDeviceSamples (snd cdn))
              (\<lambda>cdn sample. fst (fst cdn) @ [(snd (fst cdn), sample)])))"
    by (intro ext)
      (simp add: get_analog_single_device_def reading_def and_then_def guarding_def
        get_tuple_eq Let_def split: prod.splits sum.splits)
  moreover have "safe_step (and_then (reading (\<lambda>_. RTAnalogDeviceSingle) (\<lambda>c d. (c, d)))
        (and_then
           (guarding (\<lambda>cd. case Struct_floats (ds_channel_count (snd cd)) of
                               Inl e \<Rightarrow> Inl e | Inr n \<Rightarrow> Inr (cd, n)))
           (reading (\<lambda>cdn. RTAnalogDeviceSamples (snd cdn))
              (\<lambda>cdn sample. fst (fst cdn) @ [(snd (fst cdn), sample)]))))"
    by (intro safe_and_then safe_reading safe_guarding)
      (auto simp: Struct_floats_def split: if_splits)
  ultimately show ?thesis by simp
qed

lemma safe_step_truncated:
  assumes s: "safe_step f" and p: "0 \<le> pos" and l: "pos < int (length buf)"
    and r: "f buf (pos, c) = Inr (int (length buf), c')"
  shows "f (butlast buf) (pos, c) = Inl StructError"
proof (cases "f (butlast buf) (pos, c)")
  case (Inl e)
  with safe_step_error [OF s p Inl] show ?thesis by simp
next
  case (Inr t)
  obtain q c'' where t: "t = (q, c'')" by (cases t)
  from l p have ne: "buf \<noteq> []" by auto
  then have b: "butlast buf @ [last buf] = buf" by simp
  from safe_step_extend [OF s p Inr [unfolded t], of "[last buf]"] b r
  have q: "q = int (length buf)" by simp
  from ne have "0 < length buf" by simp
  with safe_step_inside [OF s p Inr [unfolded t]] q l show ?thesis by auto
qed

lemma init_loop_offsets:
  "for_range i n (init_body buf) (pos, m) = Inr (pos', m') \<Longrightarrow> 0 \<le> pos \<Longrightarrow>
   (\<And>k p. m k = Some p \<Longrightarrow> 0 \<le> p) \<Longrightarrow> m' k = Some p \<Longrightarrow> 0 \<le> p"
proof (induction n arbitrary: i pos m)
  case 0
  then show ?case by simp
next
  case (Suc n)
  from Suc.prems(1) obtain p1 m1 where b: "init_body buf i (pos, m) = Inr (p1, m1)"
    and r: "for_range (Suc i) n (init_body buf) (p1, m1) = Inr (pos', m')"
    by (auto split: sum.splits)
  from init_body_entry [OF b, of 0] obtain sz kd where
    p1: "p1 = pos + int sz" and m1: "m1 = m(kd \<mapsto> pos + 8)" by blast
  from p1 Suc.prems(2) have "0 \<le> p1" by simp
  moreover have "\<And>k p. m1 k = Some p \<Longrightarrow> 0 \<le> p"
    using m1 Suc.prems(2,3) by (auto split: if_splits)
  ultimately show ?case using Suc.IH [OF r] Suc.prems(4) by blast
qed

lemma init_offsets:
  assumes "QRTPacket_init buf = Inr self" and "components self k = Some p"
  shows "0 \<le> p \<and> data self = buf"
proof -
  from assms(1) obtain n pos' where
    l: "for_range 0 n (init_body buf) (16, Map.empty) = Inr (pos', components self)"
    and d: "data self = buf"
    by (auto simp: QRTPacket_init_def split: sum.splits prod.splits)
  from init_loop_offsets [OF l _ _ assms(2)] d show ?thesis by simp
qed

lemma init_body_prefix:
  assumes "init_body (buf @ ext) i (pos, m) = Inr s" and "0 \<le> pos"
  shows "init_body buf i (pos, m) = Inl StructError \<or> init_body buf i (pos, m) = Inr s"
proof (cases "get_exact RTComponentData buf pos")
  case (Inl e)
  with get_exact_error [OF Inl] show ?thesis by (simp add: init_body_def)
next
  case (Inr r)
  obtain p v where r: "r = (p, v)" by (cases r)
  from get_exact_extend [OF Inr [unfolded r] assms(2), of ext] Inr r assms(1)
  show ?thesis by (simp add: init_body_def)
qed

lemma init_loop_prefix:
  "for_range i n (init_body (buf @ ext)) (pos, m) = Inr s \<Longrightarrow> 0 \<le> pos \<Longrightarrow>
   for_range i n (init_body buf) (pos, m) = Inl StructError
   \<or> for_range i n (init_body buf) (pos, m) = Inr s"
proof (induction n arbitrary: i pos m)
  case 0
  then show ?case by simp
next
  case (Suc n)
  from Suc.prems(1) obtain p1 m1 where
    b: "init_body (buf @ ext) i (pos, m) = Inr (p1, m1)"
    and r: "for_range (Suc i) n (init_body (buf @ ext)) (p1, m1) = Inr s"
    by (auto split: sum.splits)
  from init_body_entry [OF b, of 0] Suc.prems(2) have p1: "0 \<le> p1" by auto
  from init_body_prefix [OF b Suc.prems(2)] Suc.IH [OF r p1] show ?case by auto
qed

lemma init_prefix:
  assumes "QRTPacket_init (buf @ ext) = Inr self"
  shows "QRTPacket_init buf = Inl StructError \<or> QRTPacket_init buf = Inr (self\<lparr>data := buf\<rparr>)"
proof (cases "get_exact RTDataQRTPacket buf 0")
  case (Inl e)
  with get_exact_error [OF Inl] show ?thesis by (simp add: QRTPacket_init_def)
next
  case (Inr r)
  obtain p ts fn n where r: "r = (p, ts, fn, n)" by (cases r)
  from get_exact_extend [OF Inr [unfolded r], of ext]
  have h: "get_exact RTDataQRTPacket (buf @ ext) 0 = Inr (p, ts, fn, n)" by simp
  with assms obtain pos' m' where
    l: "for_range 0 n (init_body (buf @ ext)) (16, Map.empty) = Inr (pos', m')"
    and s: "self = \<lparr>data = buf @ ext, timestamp = ts, framenumber = fn, components = m'\<rparr>"
    by (auto simp: QRTPacket_init_def split: sum.splits prod.splits)
  from init_loop_prefix [OF l] Inr r s show ?thesis
    by (auto simp: QRTPacket_init_def)
qed

lemma accessor_truncated:
  assumes safe: "\<And>info. safe_step (F info)"
    and fn: "\<And>info buf pos g. snd (function info buf pos g) = return_components (F info buf (pos, acc))"
    and size: "0 < format_size base"
    and k: "components self k = Some p" and p: "0 \<le> p"
    and e: "component_ends_at k base (\<lambda>info buf pos. F info buf (pos, acc)) self"
  shows "snd (ComponentGetter k base function (self\<lparr>data := butlast (data self)\<rparr>) g)
     = Inl StructError"
proof -
  let ?buf = "data self"
  from e k obtain p' info where h: "get_exact base ?buf p = Inr (p', info)"
    by (cases "get_exact base ?buf p") (auto simp: component_ends_at_def)
  with e k obtain comps where l: "F info ?buf (p', acc) = Inr (int (length ?buf), comps)"
    by (cases "F info ?buf (p', acc)") (auto simp: component_ends_at_def)
  from get_exact_inside [OF h p] size have p': "p < p'" "p' \<le> int (length ?buf)" by simp_all
  with p have ne: "?buf \<noteq> []" by auto
  then have b: "butlast ?buf @ [last ?buf] = ?buf" by simp
  show ?thesis
  proof (cases "get_exact base (butlast ?buf) p")
    case (Inl e')
    with get_exact_error [OF Inl] k show ?thesis by (simp add: ComponentGetter_def)
  next
    case (Inr r)
    obtain q info' where r: "r = (q, info')" by (cases r)
    from get_exact_extend [OF Inr [unfolded r] p, of "[last ?buf]"] b h
    have q: "q = p'" "info' = info" by simp_all
    from ne have "0 < length ?buf" by simp
    with get_exact_inside [OF Inr [unfolded r] p] q
    have "p' < int (length ?buf)" by auto
    from safe_step_truncated [OF safe _ this l] p p'
    have "F info (butlast ?buf) (p', acc) = Inl StructError" by simp
    with fn [of info "butlast ?buf" p' g]
    have "snd (function info (butlast ?buf) p' g) = Inl StructError"
      by (simp add: return_components_def)
    with k Inr r q show ?thesis
      by (cases "function info (butlast ?buf) p' g") (simp add: ComponentGetter_def)
  qed
qed

lemma answer_with_error: "snd r = Inl e \<Longrightarrow> snd (answer_with wrap r) = Inl e"
  by (cases r) (simp add: answer_with_def)

lemma component_ends_at_present:
  "component_ends_at k base loop self \<Longrightarrow> \<exists>p. components self k = Some p"
  by (cases "components self k") (simp_all add: component_ends_at_def)

lemma getter_truncated:
  assumes safe: "\<And>i. safe_step (\<lambda>buf. body buf i)"
    and size: "0 < format_size base"
    and nonneg: "\<And>k p. components self k = Some p \<Longrightarrow> 0 \<le> p"
    and e: "component_ends_at k base
              (\<lambda>info buf pos. for_range 0 (n info) (body buf) (pos, [])) self"
  shows "snd (answer_with wrap
            (ComponentGetter k base
               (unchanged (\<lambda>info buf pos.
                  return_components (for_range 0 (n info) (body buf) (pos, []))))
               (self\<lparr>data := butlast (data self)\<rparr>) g))
         = Inl StructError"
proof -
  from component_ends_at_present [OF e] obtain p where k: "components self k = Some p" ..
  have s: "\<And>info. safe_step (\<lambda>buf. for_range 0 (n info) (body buf))"
    by (rule safe_for_range) (rule safe)
  show ?thesis
    by (rule answer_with_error,
        rule accessor_truncated
          [where F = "\<lambda>info buf. for_range 0 (n info) (body buf)" and acc = "[]",
           OF s _ size k nonneg [OF k] e])
      (simp add: unchanged_def)
qed

lemma getter_g_truncated:
  assumes safe: "\<And>i. safe_step (\<lambda>buf s. snd (body buf i s g0))"
    and indep: "\<And>buf i s g. snd (body buf i s g) = snd (body buf i s g0)"
    and fn: "\<And>info buf pos g. function info buf pos g =
              (case for_range_g 0 (n info) (body buf) (pos, []) g of
                 (g', r) \<Rightarrow> (g', return_components r))"
    and size: "0 < format_size base"
    and nonneg: "\<And>k p. components self k = Some p \<Longrightarrow> 0 \<le> p"
    and e: "component_ends_at k base
              (\<lambda>info buf pos. snd (for_range_g 0 (n info) (body buf) (pos, []) g0)) self"
  shows "snd (answer_with wrap
            (ComponentGetter k base function (self\<lparr>data := butlast (data self)\<rparr>) g))
         = Inl StructError"
proof -
  from component_ends_at_present [OF e] obtain p where k: "components self k = Some p" ..
  let ?F = "\<lambda>info buf. for_range 0 (n info) (\<lambda>i s. snd (body buf i s g0))"
  have p: "\<And>info buf pos g. snd (for_range_g 0 (n info) (body buf) (pos, []) g)
      = ?F info buf (pos, [])"
    by (rule for_range_g_snd) (rule indep)
  have s: "\<And>info. safe_step (?F info)"
    by (rule safe_for_range) (rule safe)
  have f: "\<And>info buf pos g. snd (function info buf pos g)
      = return_components (?F info buf (pos, []))"
  proof -
    fix info buf pos g
    show "snd (function info buf pos g) = return_components (?F info buf (pos, []))"
      using p [of info buf pos g]
      by (cases "for_range_g 0 (n info) (body buf) (pos, []) g") (simp add: fn)
  qed
  from e have e': "component_ends_at k base (\<lambda>info buf pos. ?F info buf (pos, [])) self"
    by (simp add: p)
  show ?thesis
    by (rule answer_with_error,
        rule accessor_truncated [where F = ?F and acc = "[]", OF s f size k nonneg [OF k] e'])
qed

lemma get_analog_device_snd:
  "snd (get_analog_device buf i s g) = snd (get_analog_device buf i s g0)"
  by (cases s) (simp add: analog_device_spec)

lemmas loop_defs =
  get_force_loop_def [abs_def] get_force_single_loop_def [abs_def] get_6d_loop_def [abs_def]
  get_6d_residual_loop_def [abs_def] get_6d_euler_loop_def [abs_def]
  get_6d_euler_residual_loop_def [abs_def] get_3d_markers_loop_def [abs_def]
  QRTPacket_get_3d_markers_def [abs_def] get_2d_markers_loop_def [abs_def]
  QRTPacket_get_2d_markers_def [abs_def] get_skeletons_loop_def [abs_def]
  get_analog_loop_def [abs_def] get_analog_single_loop_def [abs_def]

lemmas base_sizes =
  RTAnalogComponent_def RTForceComponent_def RT6DComponent_def RT3DComponent_def
  RT2DComponent_def RTSkeletonComponent_def

lemma call_truncated:
  assumes nonneg: "\<And>k p. components self k = Some p \<Longrightarrow> 0 \<le> p"
    and e: "ends_at_buffer_end a self"
  shows "snd (call a (self\<lparr>data := butlast (data self)\<rparr>) g) = Inl StructError"
proof (cases a)
  case Get_analog
  with e show ?thesis
    by (simp add: accessor_defs loop_defs)
      (rule getter_g_truncated
         [where body = get_analog_device, OF get_analog_device_safe get_analog_device_snd
            _ _ nonneg],
       simp_all add: get_analog_function_def [abs_def] loop_defs base_sizes)
next
  case Get_analog_single
  with e show ?thesis
    by (simp add: accessor_defs loop_defs)
      (rule getter_g_truncated
         [where body = get_analog_single_device,
          OF get_analog_single_device_safe get_analog_single_device_snd _ _ nonneg],
       simp_all add: get_analog_single_function_def [abs_def] loop_defs base_sizes)
next
  case Get_force
  with e show ?thesis
    by (simp add: accessor_defs loop_defs)
      (rule getter_truncated [OF get_force_plate_safe _ nonneg],
       simp_all add: base_sizes)
next
  case Get_force_single
  with e show ?thesis
    by (simp add: accessor_defs loop_defs)
      (rule getter_truncated [OF get_force_single_plate_safe _ nonneg],
       simp_all add: base_sizes)
next
  case Get_6d
  with e show ?thesis
    by (simp add: accessor_defs loop_defs)
      (rule getter_truncated [OF get_6d_body_safe _ nonneg], simp_all add: base_sizes)
next
  case Get_6d_residual
  with e show ?thesis
    by (simp add: accessor_defs loop_defs)
      (rule getter_truncated [OF get_6d_residual_body_safe _ nonneg],
       simp_all add: base_sizes)
next
  case Get_6d_euler
  with e show ?thesis
    by (simp add: accessor_defs loop_defs)
      (rule getter_truncated [OF get_6d_euler_body_safe _ nonneg], simp_all add: base_sizes)
next
  case Get_6d_euler_residual
  with e show ?thesis
    by (simp add: accessor_defs loop_defs)
      (rule getter_truncated [OF get_6d_euler_residual_body_safe _ nonneg],
       simp_all add: base_sizes)
next
  case Get_image
  with e show ?thesis by simp
next
  case Get_3d_markers
  with e show ?thesis
    by (simp add: accessor_defs loop_defs)
      (rule getter_truncated [OF read_append_safe _ nonneg], simp_all add: base_sizes)
next
  case Get_3d_markers_residual
  with e show ?thesis
    by (simp add: accessor_defs loop_defs)
      (rule getter_truncated [OF read_append_safe _ nonneg], simp_all add: base_sizes)
next
  case Get_3d_markers_no_label
  with e show ?thesis
    by (simp add: accessor_defs loop_defs)
      (rule getter_truncated [OF read_append_safe _ nonneg], simp_all add: base_sizes)
next
  case Get_3d_markers_no_label_residual
  with e show ?thesis
    by (simp add: accessor_defs loop_defs)
      (rule getter_truncated [OF read_append_safe _ nonneg], simp_all add: base_sizes)
next
  case (Get_2d_markers index)
  with e show ?thesis
    by (simp add: accessor_defs loop_defs)
      (rule getter_truncated [OF get_2d_markers_camera_safe _ nonneg],
       simp_all add: base_sizes)
next
  case (Get_2d_markers_linearized index)
  with e show ?thesis
    by (simp add: accessor_defs loop_defs)
      (rule getter_truncated [OF get_2d_markers_camera_safe _ nonneg],
       simp_all add: base_sizes)
next
  case Get_skeletons
  with e show ?thesis
    by (simp add: accessor_defs loop_defs)
      (rule getter_truncated [OF get_skeletons_skeleton_safe _ nonneg],
       simp_all add: base_sizes)
qed

lemma get_exact_bytes:
  "get_exact ct buf pos = Inr (q, v) \<Longrightarrow> 0 \<le> pos \<Longrightarrow>
   q \<le> int (length buf) \<and> v = mk ct (take (format_size ct) (drop (nat pos) buf))"
  by (auto simp: get_exact_def unpack_from_def split: sum.splits if_splits)

lemma timecode_packet_init:
  "QRTPacket_init timecode_packet =
     Inr \<lparr>data = timecode_packet, timestamp = 0, framenumber = 0,
          components = timecode_components\<rparr>"
  by (simp add: init_eval timecode_packet_def timecode_components_def)

lemma timecode_packet_truncated_init:
  "QRTPacket_init (butlast timecode_packet) =
     Inr \<lparr>data = butlast timecode_packet, timestamp = 0, framenumber = 0,
          components = timecode_components\<rparr>"
  by (simp add: init_eval timecode_packet_def timecode_components_def)

lemma marker_packet_init: "QRTPacket_init marker_packet = Inr marker_self"
  by (simp add: init_eval marker_packet_def marker_self_def)

lemma marker_packet_truncated_init:
  "QRTPacket_init (butlast marker_packet) = Inr (marker_self\<lparr>data := butlast marker_packet\<rparr>)"
  by (simp add: init_eval marker_packet_def marker_self_def)

lemma marker_packet_ends: "ends_at_buffer_end Get_3d_markers marker_self"
  by (simp add: component_ends_at_def marker_self_def get_3d_markers_loop_def read_append_step
      get_exact_def unpack_from_def RT3DComponent_def RT3DMarkerPosition_def field_def
      le_sint_def marker_packet_def)

text \<open>
  C2, as stated, fails: in a packet made of an empty 3D component and a timecode component,
  each entry's size being exactly the length of its component, cutting the last byte goes
  unnoticed. Header construction builds the same directory, \<open>get_3d_markers\<close> returns its
  result, and no accessor exists for the timecode component.
\<close>

theorem truncated_timecode_packet_decodes:
  "QRTPacket_init timecode_packet =
     Inr \<lparr>data = timecode_packet, timestamp = 0, framenumber = 0,
          components = timecode_components\<rparr>
   \<and> spec_entries timecode_packet 2 16 = [(16, 16, 1), (32, 24, 17)]
   \<and> int (length timecode_packet) = 16 + 16 + 24
   \<and> QRTPacket_init (butlast timecode_packet) =
       Inr \<lparr>data = butlast timecode_packet, timestamp = 0, framenumber = 0,
            components = timecode_components\<rparr>
   \<and> get_3d_markers \<lparr>data = butlast timecode_packet, timestamp = 0, framenumber = 0,
                      components = timecode_components\<rparr> g0
       = (g0, Inr (Some (\<lparr>c3d_marker_count = 0, c3d_drop_rate = 0,
                          c3d_out_of_sync_rate = 0\<rparr>, [])))"
proof -
  have "spec_entries timecode_packet 2 16 = [(16, 16, 1), (32, 24, 17)]"
    by (simp add: timecode_packet_def unpack_from_def spec_entries_numeral)
  moreover have "int (length timecode_packet) = 16 + 16 + 24"
    by (simp add: timecode_packet_def)
  moreover have "get_3d_markers \<lparr>data = butlast timecode_packet, timestamp = 0,
        framenumber = 0, components = timecode_components\<rparr> g0
       = (g0, Inr (Some (\<lparr>c3d_marker_count = 0, c3d_drop_rate = 0,
                          c3d_out_of_sync_rate = 0\<rparr>, [])))"
    by (simp add: get_3d_markers_def ComponentGetter_def unchanged_def
        QRTPacket_get_3d_markers_def get_3d_markers_loop_def return_components_def
        timecode_components_def get_exact_def unpack_from_def RT3DComponent_def field_def
        le_sint_def timecode_packet_def)
  ultimately show ?thesis
    using timecode_packet_init timecode_packet_truncated_init by simp
qed

text \<open>
  C2, amended. Let header construction succeed on a buffer of length \<open>N\<close>, and let an
  accessor other than \<open>get_image\<close> (a 2D accessor being called without camera index) find
  its component in the directory and its decoder succeed and end at offset \<open>N\<close>. Then
  decoding the first \<open>N - 1\<close> bytes fails with \<open>struct.error\<close>: either header construction
  fails, or it succeeds and that accessor fails, whatever the format descriptors hold.
  Moreover a record read at a non-negative offset is made of bytes that lie inside the
  buffer. Nothing is said of a packet in which the bytes cut off belong to no record an
  accessor reads.
\<close>

theorem truncated_packet_fails:
  assumes "QRTPacket_init buf = Inr self"
    and "ends_at_buffer_end a self"
  shows "(case QRTPacket_init (butlast buf) of
            Inl e \<Rightarrow> e = StructError
          | Inr self' \<Rightarrow> snd (call a self' g) = Inl StructError)
     \<and> (get_exact ct buf pos = Inr (q, v) \<and> 0 \<le> pos \<longrightarrow>
          q \<le> int (length buf) \<and> v = mk ct (take (format_size ct) (drop (nat pos) buf)))"
proof -
  have nonneg: "\<And>k p. components self k = Some p \<Longrightarrow> 0 \<le> p"
    using init_offsets [OF assms(1)] by blast
  from assms(1) have d: "data self = buf"
    by (auto simp: QRTPacket_init_def split: sum.splits prod.splits)
  from assms(1) have "buf \<noteq> []"
    by (auto simp: QRTPacket_init_def get_exact_def unpack_from_def RTDataQRTPacket_def
        split: sum.splits if_splits)
  then have b: "butlast buf @ [last buf] = buf" by simp
  from call_truncated [OF nonneg assms(2), where g = g] d
  have c: "snd (call a (self\<lparr>data := butlast buf\<rparr>) g) = Inl StructError" by simp
  from init_prefix [of "butlast buf" "[last buf]" self] b assms(1)
  have "QRTPacket_init (butlast buf) = Inl StructError
      \<or> QRTPacket_init (butlast buf) = Inr (self\<lparr>data := butlast buf\<rparr>)" by simp
  with c have "case QRTPacket_init (butlast buf) of
            Inl e \<Rightarrow> e = StructError
          | Inr self' \<Rightarrow> snd (call a self' g) = Inl StructError" by auto
  with get_exact_bytes [of ct buf pos q v] show ?thesis by blast
qed

theorem truncated_packet_fails_witness:
  "QRTPacket_init marker_packet = Inr marker_self
   \<and> ends_at_buffer_end Get_3d_markers marker_self
   \<and> QRTPacket_init (butlast marker_packet) = Inr (marker_self\<lparr>data := butlast marker_packet\<rparr>)
   \<and> snd (call Get_3d_markers (marker_self\<lparr>data := butlast marker_packet\<rparr>) g0)
       = Inl StructError"
proof -
  from truncated_packet_fails [OF marker_packet_init marker_packet_ends, THEN conjunct1, of g0]
  have "snd (call Get_3d_markers (marker_self\<lparr>data := butlast marker_packet\<rparr>) g0)
       = Inl StructError"
    by (simp add: marker_packet_truncated_init)
  with marker_packet_init marker_packet_ends marker_packet_truncated_init
  show ?thesis by simp
qed

end
